theory Spec2Isabelle
  imports Main
begin

section \<open>Python values\<close>

text \<open>
  A Python \<open>str\<close> is a sequence of Unicode code points, and \<open>len\<close>, slicing and the
  regular expressions of \<open>re\<close> count code points. A string is therefore a list of code
  points; \<open>asc\<close> embeds an ASCII literal.
\<close>

type_synonym pystr = "nat list"

definition asc :: "string \<Rightarrow> pystr" where
  "asc s = map of_char s"

text \<open>
  The values that travel through JSON requests, handler parameters and results. A JSON
  number with a fraction (a Python \<open>float\<close>) is left out.
\<close>

datatype pyval =
    PNone
  | PBool bool
  | PInt int
  | PStr pystr
  | PList "pyval list"
  | PDict "(pystr \<times> pyval) list"

type_synonym pydict = "(pystr \<times> pyval) list"

text \<open>Python truthiness, as used by \<open>if x\<close>, \<open>not x\<close> and \<open>x or y\<close>.\<close>

fun truthy :: "pyval \<Rightarrow> bool" where
  "truthy PNone = False"
| "truthy (PBool b) = b"
| "truthy (PInt i) = (i \<noteq> 0)"
| "truthy (PStr s) = (s \<noteq> [])"
| "truthy (PList xs) = (xs \<noteq> [])"
| "truthy (PDict kvs) = (kvs \<noteq> [])"

text \<open>\<open>str(n)\<close> of an integer: its decimal digits, with a leading hyphen when negative.\<close>

fun digits :: "nat \<Rightarrow> pystr" where
  "digits n = (if n < 10 then [48 + n] else digits (n div 10) @ [48 + n mod 10])"

declare digits.simps [simp del]

definition str_int :: "int \<Rightarrow> pystr" where
  "str_int i = (if i < 0 then 45 # digits (nat (- i)) else digits (nat i))"

section \<open>Character classes of \<open>str.strip\<close> and \<open>re\<close>\<close>

text \<open>
  \<open>str.strip()\<close> and the pattern \<open>\s\<close> use the same test (CPython's
  \<open>Py_UNICODE_ISSPACE\<close>), which holds of exactly these code points.
\<close>

definition is_space :: "nat \<Rightarrow> bool" where
  "is_space c \<longleftrightarrow>
     (9 \<le> c \<and> c \<le> 13) \<or> (28 \<le> c \<and> c \<le> 32) \<or> c = 133 \<or> c = 160 \<or> c = 5760 \<or>
     (8192 \<le> c \<and> c \<le> 8202) \<or> c = 8232 \<or> c = 8233 \<or> c = 8239 \<or> c = 8287 \<or> c = 12288"

definition underscore :: nat where "underscore = 95"
definition hyphen :: nat where "hyphen = 45"

definition is_ascii_alnum :: "nat \<Rightarrow> bool" where
  "is_ascii_alnum c \<longleftrightarrow> (48 \<le> c \<and> c \<le> 57) \<or> (65 \<le> c \<and> c \<le> 90) \<or> (97 \<le> c \<and> c \<le> 122)"

text \<open>
  \<open>\w\<close> on a \<open>str\<close> pattern is the underscore or an alphanumeric code point. Below 128
  these are the ASCII letters and digits; above, the answer is that of the Unicode
  database, which is the parameter \<open>ualnum\<close>.
\<close>

definition is_word :: "(nat \<Rightarrow> bool) \<Rightarrow> nat \<Rightarrow> bool" where
  "is_word ualnum c \<longleftrightarrow> c = underscore \<or> (if c < 128 then is_ascii_alnum c else ualnum c)"

text \<open>The range from U+4E00 to U+9FA5 of the pattern.\<close>

definition is_cjk :: "nat \<Rightarrow> bool" where
  "is_cjk c \<longleftrightarrow> 19968 \<le> c \<and> c \<le> 40869"

text \<open>
  The pattern's class is negated: it matches what is neither \<open>\w\<close>, nor in the range, nor
  an underscore, nor a hyphen. \<open>kept\<close> holds of the characters it does not match.
\<close>

definition kept :: "(nat \<Rightarrow> bool) \<Rightarrow> nat \<Rightarrow> bool" where
  "kept ualnum c \<longleftrightarrow> is_word ualnum c \<or> is_cjk c \<or> c = underscore \<or> c = hyphen"

definition strip :: "pystr \<Rightarrow> pystr" where
  "strip s = rev (dropWhile is_space (rev (dropWhile is_space s)))"

text \<open>
  \<open>re.sub(r"\s+", "_", s)\<close>: scanning from the left, each maximal run of whitespace
  is replaced by one underscore.
\<close>

function sub_spaces :: "pystr \<Rightarrow> pystr" where
  "sub_spaces [] = []"
| "sub_spaces (c # cs) =
     (if is_space c then underscore # sub_spaces (dropWhile is_space cs)
      else c # sub_spaces cs)"
  by pat_completeness auto
termination
  by (relation "measure length") (auto simp: length_dropWhile_le le_imp_less_Suc)

text \<open>
  The second \<open>re.sub\<close> deletes every run of characters the class matches, which
  leaves the kept characters in order.
\<close>

definition sub_unsafe :: "(nat \<Rightarrow> bool) \<Rightarrow> pystr \<Rightarrow> pystr" where
  "sub_unsafe ualnum s = filter (kept ualnum) s"

definition sanitize_filename :: "(nat \<Rightarrow> bool) \<Rightarrow> pystr \<Rightarrow> pystr" where
  "sanitize_filename ualnum name =
     (let s = sub_spaces (strip name);
          s = sub_unsafe ualnum s
      in if s \<noteq> [] then take 40 s else [])"

section \<open>Request normalisation in \<open>sse_agent\<close>\<close>

record agent_request =
  req_query :: pystr
  req_title :: "pystr option"
  req_filename :: "pystr option"

text \<open>The fallback title, the three code points of the source's literal.\<close>

definition new_document_title :: pystr where
  "new_document_title = [26032, 25991, 26723]"

text \<open>\<open>x or y\<close> for an optional string: \<open>None\<close> and the empty string are both falsy.\<close>

definition str_or :: "pystr option \<Rightarrow> pystr \<Rightarrow> pystr" where
  "str_or x y = (case x of None \<Rightarrow> y | Some s \<Rightarrow> if s \<noteq> [] then s else y)"

definition resolve_title :: "agent_request \<Rightarrow> pystr" where
  "resolve_title request =
     (let title = strip (str_or (req_title request) [])
      in if title = [] then
           (let q = strip (req_query request) in if q \<noteq> [] then q else new_document_title)
         else title)"

text \<open>
  The two clock readings are inputs: \<open>secs\<close> is \<open>int(datetime.now().timestamp())\<close>,
  \<open>millis\<close> is \<open>int(datetime.now().timestamp() * 1000)\<close>.
\<close>

definition resolve_base_name :: "(nat \<Rightarrow> bool) \<Rightarrow> int \<Rightarrow> agent_request \<Rightarrow> pystr" where
  "resolve_base_name ualnum secs request =
     (let base_name = sanitize_filename ualnum (str_or (req_filename request) (resolve_title request))
      in if base_name = [] \<or> length base_name < 3 then asc ''doc_'' @ str_int secs
         else base_name)"

definition resolve_filename :: "(nat \<Rightarrow> bool) \<Rightarrow> int \<Rightarrow> int \<Rightarrow> agent_request \<Rightarrow> pystr" where
  "resolve_filename ualnum secs millis request =
     resolve_base_name ualnum secs request @ asc ''_'' @ str_int millis"

section \<open>String operations used by the handlers\<close>

text \<open>\<open>sep.join(parts)\<close>.\<close>

fun str_join :: "pystr \<Rightarrow> pystr list \<Rightarrow> pystr" where
  "str_join sep [] = []"
| "str_join sep [x] = x"
| "str_join sep (x # y # ys) = x @ sep @ str_join sep (y # ys)"

text \<open>\<open>s.split(c)\<close> for a separator of one character: the result is never empty.\<close>

fun split_on :: "nat \<Rightarrow> pystr \<Rightarrow> pystr list" where
  "split_on sep [] = [[]]"
| "split_on sep (c # cs) =
     (if c = sep then [] # split_on sep cs
      else (case split_on sep cs of [] \<Rightarrow> [[c]] | x # xs \<Rightarrow> (c # x) # xs))"

fun starts_with :: "pystr \<Rightarrow> pystr \<Rightarrow> bool" where
  "starts_with [] s = True"
| "starts_with (p # ps) [] = False"
| "starts_with (p # ps) (c # cs) = (p = c \<and> starts_with ps cs)"

definition ends_with :: "pystr \<Rightarrow> pystr \<Rightarrow> bool" where
  "ends_with suffix s = starts_with (rev suffix) (rev s)"

text \<open>\<open>sub in s\<close> for two strings.\<close>

fun contains :: "pystr \<Rightarrow> pystr \<Rightarrow> bool" where
  "contains sub [] = (sub = [])"
| "contains sub (c # cs) = (starts_with sub (c # cs) \<or> contains sub cs)"

text \<open>
  \<open>s.replace(old, new)\<close>: the occurrences of \<open>old\<close> are replaced from the left and do
  not overlap; an empty \<open>old\<close> matches before every character and at the end.
\<close>

function replace_nonempty :: "nat \<Rightarrow> pystr \<Rightarrow> pystr \<Rightarrow> pystr \<Rightarrow> pystr" where
  "replace_nonempty p ps new [] = []"
| "replace_nonempty p ps new (c # cs) =
     (if starts_with (p # ps) (c # cs) then new @ replace_nonempty p ps new (drop (length ps) cs)
      else c # replace_nonempty p ps new cs)"
  by pat_completeness auto
termination
  by (relation "measure (\<lambda>(p, ps, new, s). length s)") auto

definition str_replace :: "pystr \<Rightarrow> pystr \<Rightarrow> pystr \<Rightarrow> pystr" where
  "str_replace old new s =
     (case old of
        [] \<Rightarrow> new @ concat (map (\<lambda>c. c # new) s)
      | p # ps \<Rightarrow> replace_nonempty p ps new s)"

section \<open>Exceptions and dynamic typing\<close>

text \<open>
  The subclasses of \<open>Exception\<close>, each with the text that \<open>str(e)\<close> gives. These are what
  \<open>except Exception\<close> catches; an interrupt of the interpreter, which is no \<open>Exception\<close>,
  is not modelled.
\<close>

datatype exn =
    TypeError pystr
  | AttributeError pystr
  | IndexError pystr
  | OtherException pystr pystr

fun exn_str :: "exn \<Rightarrow> pystr" where
  "exn_str (TypeError m) = m"
| "exn_str (AttributeError m) = m"
| "exn_str (IndexError m) = m"
| "exn_str (OtherException cls m) = m"

fun type_name :: "pyval \<Rightarrow> pystr" where
  "type_name PNone = asc ''NoneType''"
| "type_name (PBool b) = asc ''bool''"
| "type_name (PInt i) = asc ''int''"
| "type_name (PStr s) = asc ''str''"
| "type_name (PList xs) = asc ''list''"
| "type_name (PDict kvs) = asc ''dict''"

definition quoted :: "pystr \<Rightarrow> pystr" where
  "quoted s = [39] @ s @ [39]"

text \<open>\<open>content.split('\n')\<close> on a value that need not be a string.\<close>

fun py_split_lines :: "pyval \<Rightarrow> exn + pystr list" where
  "py_split_lines (PStr s) = Inr (split_on 10 s)"
| "py_split_lines v =
     Inl (AttributeError (quoted (type_name v) @ asc '' object has no attribute '' @ quoted (asc ''split'')))"

text \<open>\<open>len(v)\<close>.\<close>

fun py_len :: "pyval \<Rightarrow> exn + nat" where
  "py_len (PStr s) = Inr (length s)"
| "py_len (PList xs) = Inr (length xs)"
| "py_len (PDict kvs) = Inr (length kvs)"
| "py_len v = Inl (TypeError (asc ''object of type '' @ quoted (type_name v) @ asc '' has no len()''))"

text \<open>
  The items a \<open>for\<close> loop over \<open>v\<close> visits: the characters of a string, the elements of a
  list, the keys of a dict.
\<close>

fun py_iter :: "pyval \<Rightarrow> exn + pyval list" where
  "py_iter (PStr s) = Inr (map (\<lambda>c. PStr [c]) s)"
| "py_iter (PList xs) = Inr xs"
| "py_iter (PDict kvs) = Inr (map (\<lambda>kv. PStr (fst kv)) kvs)"
| "py_iter v = Inl (TypeError (quoted (type_name v) @ asc '' object is not iterable''))"

text \<open>\<open>v < n\<close> for an integer \<open>n\<close>: a \<open>bool\<close> is an \<open>int\<close>.\<close>

fun py_less_int :: "pyval \<Rightarrow> int \<Rightarrow> exn + bool" where
  "py_less_int (PInt i) n = Inr (i < n)"
| "py_less_int (PBool b) n = Inr ((if b then 1 else 0) < n)"
| "py_less_int v n =
     Inl (TypeError (quoted (asc ''<'') @ asc '' not supported between instances of '' @
          quoted (type_name v) @ asc '' and '' @ quoted (asc ''int'')))"

text \<open>
  \<open>xs[v]\<close> on a list of length \<open>n\<close>: the position read, where a negative index counts
  from the end.
\<close>

fun py_index :: "pyval \<Rightarrow> nat \<Rightarrow> exn + nat" where
  "py_index (PInt i) n =
     (let j = (if i < 0 then int n + i else i)
      in if 0 \<le> j \<and> j < int n then Inr (nat j) else Inl (IndexError (asc ''list index out of range'')))"
| "py_index (PBool b) n =
     (if (if b then 1 else 0) < n then Inr (if b then 1 else 0)
      else Inl (IndexError (asc ''list index out of range'')))"
| "py_index v n =
     Inl (TypeError (asc ''list indices must be integers or slices, not '' @ type_name v))"

text \<open>\<open>v in text\<close> and \<open>text.replace(v, w)\<close> for a string \<open>text\<close>.\<close>

fun py_in_str :: "pyval \<Rightarrow> pystr \<Rightarrow> exn + bool" where
  "py_in_str (PStr s) text = Inr (contains s text)"
| "py_in_str v text =
     Inl (TypeError (quoted (asc ''in <string>'') @ asc '' requires string as left operand, not '' @
          type_name v))"

fun py_replace :: "pystr \<Rightarrow> pyval \<Rightarrow> pyval \<Rightarrow> exn + pystr" where
  "py_replace text (PStr old) (PStr new) = Inr (str_replace old new text)"
| "py_replace text (PStr old) w =
     Inl (TypeError (asc ''replace() argument 2 must be str, not '' @
          (if w = PNone then asc ''None'' else type_name w)))"
| "py_replace text v w =
     Inl (TypeError (asc ''replace() argument 1 must be str, not '' @
          (if v = PNone then asc ''None'' else type_name v)))"

section \<open>The document backend\<close>

text \<open>
  The handlers work through \<open>pathlib\<close>, the file system, \<open>datetime\<close> and the
  \<open>python-docx\<close> library. None of these is code of the repository, so they are a
  parameter: a record of the operations the handlers call, each returning its value or
  the exception it raises. \<open>'w\<close> is the state of the file system and the clock, \<open>'d\<close>
  a \<open>Document\<close> object in memory. A path is modelled by its \<open>str\<close>. An operation that
  writes returns the new state also when it raises.
\<close>

record stat_result =
  st_size :: int
  st_mtime_iso :: pystr

record ('w, 'd) backend =
  py_repr :: "pyval \<Rightarrow> pystr"
  now_strftime :: "'w \<Rightarrow> pystr"
  path_new :: "pyval \<Rightarrow> exn + pystr"
  path_is_absolute :: "pystr \<Rightarrow> bool"
  path_in_word_dir :: "pyval \<Rightarrow> exn + pystr"
  path_name :: "pystr \<Rightarrow> pystr"
  path_exists :: "pystr \<Rightarrow> 'w \<Rightarrow> exn + bool"
  path_stat :: "pystr \<Rightarrow> 'w \<Rightarrow> exn + stat_result"
  path_unlink :: "pystr \<Rightarrow> 'w \<Rightarrow> exn option \<times> 'w"
  path_glob_docx :: "'w \<Rightarrow> exn + pystr list"
  doc_new :: "exn + 'd"
  doc_open :: "pystr \<Rightarrow> 'w \<Rightarrow> exn + 'd"
  doc_save :: "'d \<Rightarrow> pystr \<Rightarrow> 'w \<Rightarrow> exn option \<times> 'w"
  doc_add_heading :: "pyval \<Rightarrow> int \<Rightarrow> 'd \<Rightarrow> exn + 'd"
  doc_center_heading :: "'d \<Rightarrow> exn + 'd"
  doc_add_paragraph :: "pystr \<Rightarrow> 'd \<Rightarrow> exn + 'd"
  doc_paragraph_count :: "'d \<Rightarrow> exn + nat"
  doc_paragraph_texts :: "'d \<Rightarrow> exn + pystr list"
  doc_table_texts :: "'d \<Rightarrow> exn + pystr list list list"
  doc_insert_paragraph_before :: "nat \<Rightarrow> pyval \<Rightarrow> 'd \<Rightarrow> exn + 'd"
  doc_paragraph_clear :: "nat \<Rightarrow> 'd \<Rightarrow> exn + 'd"
  doc_paragraph_add_run :: "nat \<Rightarrow> pyval \<Rightarrow> 'd \<Rightarrow> exn + 'd"
  doc_add_table :: "nat \<Rightarrow> nat \<Rightarrow> 'd \<Rightarrow> exn + 'd"
  doc_set_table_style :: "pystr \<Rightarrow> 'd \<Rightarrow> exn + 'd"
  doc_set_cell_text :: "nat \<Rightarrow> nat \<Rightarrow> pystr \<Rightarrow> 'd \<Rightarrow> exn + 'd"
  doc_run_counts :: "'d \<Rightarrow> exn + nat list"
  doc_run_text :: "nat \<Rightarrow> nat \<Rightarrow> 'd \<Rightarrow> exn + pystr"
  doc_set_run_text :: "nat \<Rightarrow> nat \<Rightarrow> pystr \<Rightarrow> 'd \<Rightarrow> exn + 'd"

text \<open>
  \<open>str(v)\<close>, which is also what an f-string inserts. The \<open>repr\<close> of a list or a dict is
  left to the backend.
\<close>

definition py_str :: "('w, 'd) backend \<Rightarrow> pyval \<Rightarrow> pystr" where
  "py_str api v =
     (case v of
        PNone \<Rightarrow> asc ''None''
      | PBool b \<Rightarrow> (if b then asc ''True'' else asc ''False'')
      | PInt i \<Rightarrow> str_int i
      | PStr s \<Rightarrow> s
      | _ \<Rightarrow> py_repr api v)"

definition get_file_path :: "('w, 'd) backend \<Rightarrow> pyval \<Rightarrow> exn + pystr" where
  "get_file_path api filename =
     (case path_new api filename of Inl e \<Rightarrow> Inl e | Inr path \<Rightarrow>
      case (if \<not> path_is_absolute api path then path_in_word_dir api filename else Inr path) of
        Inl e \<Rightarrow> Inl e
      | Inr path \<Rightarrow>
          if \<not> ends_with (asc ''.docx'') path then path_new api (PStr (path @ asc ''.docx''))
          else Inr path)"

text \<open>The literal messages of the handlers, as code points.\<close>

definition msg_created :: pystr where
  "msg_created = [25991, 26723, 21019, 24314, 25104, 21151]"

definition msg_not_found :: pystr where
  "msg_not_found = [25991, 20214, 19981, 23384, 22312] @ asc '': ''"

definition msg_invalid :: pystr where
  "msg_invalid = [26080, 25928, 30340, 25805, 20316, 25110, 32570, 23569, 21442, 25968]"

definition msg_updated :: pystr where
  "msg_updated = [25991, 26723, 26356, 26032, 25104, 21151]"

definition msg_deleted :: pystr where
  "msg_deleted = [25991, 26723, 21024, 38500, 25104, 21151]"

definition msg_table_added :: pystr where
  "msg_table_added = [34920, 26684, 28155, 21152, 25104, 21151]"

definition msg_replaced :: "int \<Rightarrow> pystr" where
  "msg_replaced count = [26367, 25442, 20102] @ asc '' '' @ str_int count @ asc '' '' @ [22788]"

definition not_found :: "('w, 'd) backend \<Rightarrow> pyval \<Rightarrow> pydict" where
  "not_found api filename =
     [(asc ''success'', PBool False), (asc ''error'', PStr (msg_not_found @ py_str api filename))]"

text \<open>
  \<open>try: ... except Exception as e: return {"success": False, "error": str(e)}\<close>, the
  frame of every handler. The body of the \<open>try\<close> is the function named \<open>_try\<close>.
\<close>

definition except_Exception :: "(exn + pydict) \<times> 'w \<Rightarrow> pydict \<times> 'w" where
  "except_Exception r =
     (case r of
        (Inl e, w) \<Rightarrow> ([(asc ''success'', PBool False), (asc ''error'', PStr (exn_str e))], w)
      | (Inr result, w) \<Rightarrow> (result, w))"

subsection \<open>\<open>create_document\<close>\<close>

fun add_stripped_lines :: "('w, 'd) backend \<Rightarrow> pystr list \<Rightarrow> 'd \<Rightarrow> exn + 'd" where
  "add_stripped_lines api [] doc = Inr doc"
| "add_stripped_lines api (line # lines) doc =
     (case doc_add_paragraph api (if strip line \<noteq> [] then strip line else []) doc of
        Inl e \<Rightarrow> Inl e
      | Inr doc \<Rightarrow> add_stripped_lines api lines doc)"

definition create_document_try ::
  "('w, 'd) backend \<Rightarrow> pyval \<Rightarrow> pyval \<Rightarrow> pyval \<Rightarrow> 'w \<Rightarrow> (exn + pydict) \<times> 'w" where
  "create_document_try api filename title content w =
     (let filename =
            (if \<not> truthy filename
             then PStr (asc ''document_'' @ now_strftime api w @ asc ''.docx'')
             else filename)
      in
      case get_file_path api filename of Inl e \<Rightarrow> (Inl e, w) | Inr file_path \<Rightarrow>
      case doc_new api of Inl e \<Rightarrow> (Inl e, w) | Inr doc \<Rightarrow>
      case (if truthy title
            then (case doc_add_heading api title 1 doc of
                    Inl e \<Rightarrow> Inl e
                  | Inr doc \<Rightarrow> doc_center_heading api doc)
            else Inr doc) of Inl e \<Rightarrow> (Inl e, w) | Inr doc \<Rightarrow>
      case (if truthy content
            then (case py_split_lines content of
                    Inl e \<Rightarrow> Inl e
                  | Inr lines \<Rightarrow> add_stripped_lines api lines doc)
            else Inr doc) of Inl e \<Rightarrow> (Inl e, w) | Inr doc \<Rightarrow>
      case doc_save api doc file_path w of (Some e, w') \<Rightarrow> (Inl e, w') | (None, w') \<Rightarrow>
      case path_stat api file_path w' of Inl e \<Rightarrow> (Inl e, w') | Inr st \<Rightarrow>
        (Inr [(asc ''success'', PBool True),
              (asc ''message'', PStr msg_created),
              (asc ''file_path'', PStr file_path),
              (asc ''file_size'', PInt (st_size st))], w'))"

definition create_document ::
  "('w, 'd) backend \<Rightarrow> pyval \<Rightarrow> pyval \<Rightarrow> pyval \<Rightarrow> 'w \<Rightarrow> pydict \<times> 'w" where
  "create_document api filename title content w =
     except_Exception (create_document_try api filename title content w)"

subsection \<open>\<open>read_document\<close>\<close>

definition read_document_try ::
  "('w, 'd) backend \<Rightarrow> pyval \<Rightarrow> 'w \<Rightarrow> (exn + pydict) \<times> 'w" where
  "read_document_try api filename w =
     (case get_file_path api filename of Inl e \<Rightarrow> (Inl e, w) | Inr file_path \<Rightarrow>
      case path_exists api file_path w of Inl e \<Rightarrow> (Inl e, w) | Inr found \<Rightarrow>
      if \<not> found then (Inr (not_found api filename), w) else
      case doc_open api file_path w of Inl e \<Rightarrow> (Inl e, w) | Inr doc \<Rightarrow>
      case doc_paragraph_texts api doc of Inl e \<Rightarrow> (Inl e, w) | Inr paragraphs \<Rightarrow>
      case doc_table_texts api doc of Inl e \<Rightarrow> (Inl e, w) | Inr tables \<Rightarrow>
        (Inr [(asc ''success'', PBool True),
              (asc ''file_path'', PStr file_path),
              (asc ''paragraphs'', PList (map PStr paragraphs)),
              (asc ''paragraph_count'', PInt (int (length paragraphs))),
              (asc ''tables'', PList (map (\<lambda>t. PList (map (\<lambda>r. PList (map PStr r)) t)) tables)),
              (asc ''table_count'', PInt (int (length tables))),
              (asc ''full_text'', PStr (str_join [10] paragraphs))], w))"

definition read_document :: "('w, 'd) backend \<Rightarrow> pyval \<Rightarrow> 'w \<Rightarrow> pydict \<times> 'w" where
  "read_document api filename w = except_Exception (read_document_try api filename w)"

subsection \<open>\<open>update_document\<close>\<close>

fun add_lines :: "('w, 'd) backend \<Rightarrow> pystr list \<Rightarrow> 'd \<Rightarrow> exn + 'd" where
  "add_lines api [] doc = Inr doc"
| "add_lines api (line # lines) doc =
     (case doc_add_paragraph api line doc of
        Inl e \<Rightarrow> Inl e
      | Inr doc \<Rightarrow> add_lines api lines doc)"

text \<open>
  The chain of \<open>if\<close>/\<open>elif\<close>: the edited document, or \<open>None\<close> when the final \<open>else\<close> is
  taken, which returns the failure result without saving.
\<close>

definition update_edit ::
  "('w, 'd) backend \<Rightarrow> pyval \<Rightarrow> pyval \<Rightarrow> pyval \<Rightarrow> 'd \<Rightarrow> exn + 'd option" where
  "update_edit api action content paragraph_index doc =
     (if action = PStr (asc ''append'') \<and> truthy content then
        (case py_split_lines content of Inl e \<Rightarrow> Inl e | Inr lines \<Rightarrow>
         case add_lines api lines doc of Inl e \<Rightarrow> Inl e | Inr doc \<Rightarrow> Inr (Some doc))
      else if action = PStr (asc ''add_heading'') \<and> truthy content then
        (case doc_add_heading api content 2 doc of Inl e \<Rightarrow> Inl e | Inr doc \<Rightarrow> Inr (Some doc))
      else if action = PStr (asc ''insert'') \<and> truthy content \<and> paragraph_index \<noteq> PNone then
        (case doc_paragraph_count api doc of Inl e \<Rightarrow> Inl e | Inr n \<Rightarrow>
         case py_less_int paragraph_index (int n) of Inl e \<Rightarrow> Inl e | Inr below \<Rightarrow>
         if below then
           (case py_index paragraph_index n of Inl e \<Rightarrow> Inl e | Inr i \<Rightarrow>
            case doc_insert_paragraph_before api i content doc of
              Inl e \<Rightarrow> Inl e
            | Inr doc \<Rightarrow> Inr (Some doc))
         else Inr (Some doc))
      else if action = PStr (asc ''replace'') \<and> paragraph_index \<noteq> PNone then
        (case doc_paragraph_count api doc of Inl e \<Rightarrow> Inl e | Inr n \<Rightarrow>
         case py_less_int paragraph_index (int n) of Inl e \<Rightarrow> Inl e | Inr below \<Rightarrow>
         if below then
           (case py_index paragraph_index n of Inl e \<Rightarrow> Inl e | Inr i \<Rightarrow>
            case doc_paragraph_clear api i doc of Inl e \<Rightarrow> Inl e | Inr doc \<Rightarrow>
            case doc_paragraph_add_run api i (if truthy content then content else PStr []) doc of
              Inl e \<Rightarrow> Inl e
            | Inr doc \<Rightarrow> Inr (Some doc))
         else Inr (Some doc))
      else Inr None)"

definition update_document_try ::
  "('w, 'd) backend \<Rightarrow> pyval \<Rightarrow> pyval \<Rightarrow> pyval \<Rightarrow> pyval \<Rightarrow> 'w \<Rightarrow> (exn + pydict) \<times> 'w" where
  "update_document_try api filename action content paragraph_index w =
     (case get_file_path api filename of Inl e \<Rightarrow> (Inl e, w) | Inr file_path \<Rightarrow>
      case path_exists api file_path w of Inl e \<Rightarrow> (Inl e, w) | Inr found \<Rightarrow>
      if \<not> found then (Inr (not_found api filename), w) else
      case doc_open api file_path w of Inl e \<Rightarrow> (Inl e, w) | Inr doc \<Rightarrow>
      case update_edit api action content paragraph_index doc of
        Inl e \<Rightarrow> (Inl e, w)
      | Inr None \<Rightarrow>
          (Inr [(asc ''success'', PBool False), (asc ''error'', PStr msg_invalid)], w)
      | Inr (Some doc) \<Rightarrow>
          (case doc_save api doc file_path w of
             (Some e, w') \<Rightarrow> (Inl e, w')
           | (None, w') \<Rightarrow>
               (Inr [(asc ''success'', PBool True),
                     (asc ''message'', PStr msg_updated),
                     (asc ''action'', action)], w')))"

definition update_document ::
  "('w, 'd) backend \<Rightarrow> pyval \<Rightarrow> pyval \<Rightarrow> pyval \<Rightarrow> pyval \<Rightarrow> 'w \<Rightarrow> pydict \<times> 'w" where
  "update_document api filename action content paragraph_index w =
     except_Exception (update_document_try api filename action content paragraph_index w)"

subsection \<open>\<open>delete_document\<close>\<close>

definition delete_document_try ::
  "('w, 'd) backend \<Rightarrow> pyval \<Rightarrow> 'w \<Rightarrow> (exn + pydict) \<times> 'w" where
  "delete_document_try api filename w =
     (case get_file_path api filename of Inl e \<Rightarrow> (Inl e, w) | Inr file_path \<Rightarrow>
      case path_exists api file_path w of Inl e \<Rightarrow> (Inl e, w) | Inr found \<Rightarrow>
      if \<not> found then (Inr (not_found api filename), w) else
      case path_unlink api file_path w of
        (Some e, w') \<Rightarrow> (Inl e, w')
      | (None, w') \<Rightarrow>
          (Inr [(asc ''success'', PBool True), (asc ''message'', PStr msg_deleted)], w'))"

definition delete_document :: "('w, 'd) backend \<Rightarrow> pyval \<Rightarrow> 'w \<Rightarrow> pydict \<times> 'w" where
  "delete_document api filename w = except_Exception (delete_document_try api filename w)"

subsection \<open>\<open>list_documents\<close>\<close>

fun collect_docs :: "('w, 'd) backend \<Rightarrow> pystr list \<Rightarrow> 'w \<Rightarrow> pyval list \<Rightarrow> exn + pyval list" where
  "collect_docs api [] w docs = Inr docs"
| "collect_docs api (file # files) w docs =
     (case path_stat api file w of
        Inl e \<Rightarrow> Inl e
      | Inr stat \<Rightarrow>
          collect_docs api files w
            (docs @ [PDict [(asc ''name'', PStr (path_name api file)),
                            (asc ''path'', PStr file),
                            (asc ''size'', PInt (st_size stat)),
                            (asc ''modified'', PStr (st_mtime_iso stat))]]))"

definition list_documents_try :: "('w, 'd) backend \<Rightarrow> 'w \<Rightarrow> (exn + pydict) \<times> 'w" where
  "list_documents_try api w =
     (case path_glob_docx api w of Inl e \<Rightarrow> (Inl e, w) | Inr files \<Rightarrow>
      case collect_docs api files w [] of Inl e \<Rightarrow> (Inl e, w) | Inr docs \<Rightarrow>
        (Inr [(asc ''success'', PBool True),
              (asc ''count'', PInt (int (length docs))),
              (asc ''documents'', PList docs)], w))"

definition list_documents :: "('w, 'd) backend \<Rightarrow> 'w \<Rightarrow> pydict \<times> 'w" where
  "list_documents api w = except_Exception (list_documents_try api w)"

subsection \<open>\<open>add_table\<close>\<close>

text \<open>\<open>len(row) for row in table_data\<close>, stopping at the first row without a length.\<close>

fun row_lengths :: "pyval list \<Rightarrow> exn + nat list" where
  "row_lengths [] = Inr []"
| "row_lengths (row # rows) =
     (case py_len row of Inl e \<Rightarrow> Inl e | Inr n \<Rightarrow>
      case row_lengths rows of Inl e \<Rightarrow> Inl e | Inr ns \<Rightarrow> Inr (n # ns))"

fun fill_cells ::
  "('w, 'd) backend \<Rightarrow> nat \<Rightarrow> nat \<Rightarrow> nat \<Rightarrow> pyval list \<Rightarrow> 'd \<Rightarrow> exn + 'd" where
  "fill_cells api cols i j [] doc = Inr doc"
| "fill_cells api cols i j (cell_data # rest) doc =
     (case (if j < cols then doc_set_cell_text api i j (py_str api cell_data) doc else Inr doc) of
        Inl e \<Rightarrow> Inl e
      | Inr doc \<Rightarrow> fill_cells api cols i (Suc j) rest doc)"

fun fill_rows :: "('w, 'd) backend \<Rightarrow> nat \<Rightarrow> nat \<Rightarrow> pyval list \<Rightarrow> 'd \<Rightarrow> exn + 'd" where
  "fill_rows api cols i [] doc = Inr doc"
| "fill_rows api cols i (row_data # rest) doc =
     (case py_iter row_data of Inl e \<Rightarrow> Inl e | Inr cells \<Rightarrow>
      case fill_cells api cols i 0 cells doc of Inl e \<Rightarrow> Inl e | Inr doc \<Rightarrow>
        fill_rows api cols (Suc i) rest doc)"

text \<open>
  The block under \<open>if table_data\<close>. \<open>table_data\<close> is truthy there, so \<open>max\<close> gets at
  least one length and \<open>fold max\<close> from 0 is that maximum.
\<close>

definition fill_table :: "('w, 'd) backend \<Rightarrow> pyval \<Rightarrow> 'd \<Rightarrow> exn + 'd" where
  "fill_table api table_data doc =
     (case py_len table_data of Inl e \<Rightarrow> Inl e | Inr rows \<Rightarrow>
      case py_iter table_data of Inl e \<Rightarrow> Inl e | Inr row_list \<Rightarrow>
      case row_lengths row_list of Inl e \<Rightarrow> Inl e | Inr lens \<Rightarrow>
      case doc_add_table api rows (fold max lens 0) doc of Inl e \<Rightarrow> Inl e | Inr doc \<Rightarrow>
      case doc_set_table_style api (asc ''Light Grid Accent 1'') doc of
        Inl e \<Rightarrow> Inl e
      | Inr doc \<Rightarrow> fill_rows api (fold max lens 0) 0 row_list doc)"

definition add_table_try ::
  "('w, 'd) backend \<Rightarrow> pyval \<Rightarrow> pyval \<Rightarrow> pyval \<Rightarrow> 'w \<Rightarrow> (exn + pydict) \<times> 'w" where
  "add_table_try api filename table_data title w =
     (case get_file_path api filename of Inl e \<Rightarrow> (Inl e, w) | Inr file_path \<Rightarrow>
      case path_exists api file_path w of Inl e \<Rightarrow> (Inl e, w) | Inr found \<Rightarrow>
      if \<not> found then (Inr (not_found api filename), w) else
      case doc_open api file_path w of Inl e \<Rightarrow> (Inl e, w) | Inr doc \<Rightarrow>
      case (if truthy title then doc_add_heading api title 2 doc else Inr doc) of
        Inl e \<Rightarrow> (Inl e, w) | Inr doc \<Rightarrow>
      case (if truthy table_data then fill_table api table_data doc else Inr doc) of
        Inl e \<Rightarrow> (Inl e, w) | Inr doc \<Rightarrow>
      case doc_save api doc file_path w of
        (Some e, w') \<Rightarrow> (Inl e, w')
      | (None, w') \<Rightarrow>
          (Inr [(asc ''success'', PBool True), (asc ''message'', PStr msg_table_added)], w'))"

definition add_table ::
  "('w, 'd) backend \<Rightarrow> pyval \<Rightarrow> pyval \<Rightarrow> pyval \<Rightarrow> 'w \<Rightarrow> pydict \<times> 'w" where
  "add_table api filename table_data title w =
     except_Exception (add_table_try api filename table_data title w)"

subsection \<open>\<open>search_replace\<close>\<close>

text \<open>
  The inner loop over the runs of paragraph \<open>p\<close>, and the outer loop over the paragraphs,
  given the number of runs of each. The pair is the document and \<open>count\<close>.
\<close>

fun replace_in_runs ::
  "('w, 'd) backend \<Rightarrow> pyval \<Rightarrow> pyval \<Rightarrow> nat \<Rightarrow> nat list \<Rightarrow> 'd \<times> int \<Rightarrow> exn + 'd \<times> int" where
  "replace_in_runs api search_text replace_text p [] acc = Inr acc"
| "replace_in_runs api search_text replace_text p (r # rs) (doc, count) =
     (case doc_run_text api p r doc of Inl e \<Rightarrow> Inl e | Inr text \<Rightarrow>
      case py_in_str search_text text of Inl e \<Rightarrow> Inl e | Inr found \<Rightarrow>
      if found then
        (case py_replace text search_text replace_text of Inl e \<Rightarrow> Inl e | Inr text' \<Rightarrow>
         case doc_set_run_text api p r text' doc of Inl e \<Rightarrow> Inl e | Inr doc \<Rightarrow>
           replace_in_runs api search_text replace_text p rs (doc, count + 1))
      else replace_in_runs api search_text replace_text p rs (doc, count))"

fun replace_in_paragraphs ::
  "('w, 'd) backend \<Rightarrow> pyval \<Rightarrow> pyval \<Rightarrow> nat \<Rightarrow> nat list \<Rightarrow> 'd \<times> int \<Rightarrow> exn + 'd \<times> int" where
  "replace_in_paragraphs api search_text replace_text p [] acc = Inr acc"
| "replace_in_paragraphs api search_text replace_text p (k # ks) acc =
     (case replace_in_runs api search_text replace_text p [0..<k] acc of
        Inl e \<Rightarrow> Inl e
      | Inr acc \<Rightarrow> replace_in_paragraphs api search_text replace_text (Suc p) ks acc)"

definition search_replace_try ::
  "('w, 'd) backend \<Rightarrow> pyval \<Rightarrow> pyval \<Rightarrow> pyval \<Rightarrow> 'w \<Rightarrow> (exn + pydict) \<times> 'w" where
  "search_replace_try api filename search_text replace_text w =
     (case get_file_path api filename of Inl e \<Rightarrow> (Inl e, w) | Inr file_path \<Rightarrow>
      case path_exists api file_path w of Inl e \<Rightarrow> (Inl e, w) | Inr found \<Rightarrow>
      if \<not> found then (Inr (not_found api filename), w) else
      case doc_open api file_path w of Inl e \<Rightarrow> (Inl e, w) | Inr doc \<Rightarrow>
      case doc_run_counts api doc of Inl e \<Rightarrow> (Inl e, w) | Inr counts \<Rightarrow>
      case replace_in_paragraphs api search_text replace_text 0 counts (doc, 0) of
        Inl e \<Rightarrow> (Inl e, w)
      | Inr (doc, count) \<Rightarrow>
          (case doc_save api doc file_path w of
             (Some e, w') \<Rightarrow> (Inl e, w')
           | (None, w') \<Rightarrow>
               (Inr [(asc ''success'', PBool True),
                     (asc ''message'', PStr (msg_replaced count)),
                     (asc ''count'', PInt count)], w')))"

definition search_replace ::
  "('w, 'd) backend \<Rightarrow> pyval \<Rightarrow> pyval \<Rightarrow> pyval \<Rightarrow> 'w \<Rightarrow> pydict \<times> 'w" where
  "search_replace api filename search_text replace_text w =
     except_Exception (search_replace_try api filename search_text replace_text w)"

section \<open>The registry and the call \<open>handler(**params)\<close>\<close>

text \<open>
  A function object: its name, the parameters without a default, those with one (the
  default is \<open>None\<close> for every handler), and its body applied to the values bound to the
  parameter names.
\<close>

record 'w handler =
  fn_name :: pystr
  fn_required :: "pystr list"
  fn_optional :: "pystr list"
  fn_body :: "(pystr \<Rightarrow> pyval) \<Rightarrow> 'w \<Rightarrow> pydict \<times> 'w"

fun comma_list :: "pystr list \<Rightarrow> pystr" where
  "comma_list [] = []"
| "comma_list [x] = asc ''and '' @ quoted x"
| "comma_list (x # y # ys) = quoted x @ asc '', '' @ comma_list (y # ys)"

fun name_list :: "pystr list \<Rightarrow> pystr" where
  "name_list [] = []"
| "name_list [a] = quoted a"
| "name_list [a, b] = quoted a @ asc '' and '' @ quoted b"
| "name_list names = comma_list names"

definition missing_arguments :: "pystr \<Rightarrow> pystr list \<Rightarrow> exn" where
  "missing_arguments name missing =
     TypeError (name @ asc ''() missing '' @ str_int (int (length missing)) @
                asc '' required positional argument'' @
                (if length missing = 1 then [] else asc ''s'') @ asc '': '' @ name_list missing)"

definition unexpected_keyword :: "pystr \<Rightarrow> pystr \<Rightarrow> exn" where
  "unexpected_keyword name key =
     TypeError (name @ asc ''() got an unexpected keyword argument '' @ quoted key)"

text \<open>
  Binding the keyword arguments of \<open>f(**kwargs)\<close>: a key that is no parameter raises
  \<open>TypeError\<close>, then a parameter without default and without value does. The call raises
  before the body of \<open>f\<close>, and so outside its \<open>try\<close>. A parameter that gets no value
  takes its default, \<open>None\<close>.
\<close>

definition argument_values :: "pydict \<Rightarrow> pystr \<Rightarrow> pyval" where
  "argument_values kwargs n = (case map_of kwargs n of Some v \<Rightarrow> v | None \<Rightarrow> PNone)"

definition bind_arguments :: "'w handler \<Rightarrow> pydict \<Rightarrow> exn + (pystr \<Rightarrow> pyval)" where
  "bind_arguments f kwargs =
     (case find (\<lambda>k. k \<notin> set (fn_required f @ fn_optional f)) (map fst kwargs) of
        Some k \<Rightarrow> Inl (unexpected_keyword (fn_name f) k)
      | None \<Rightarrow>
          (case filter (\<lambda>n. map_of kwargs n = None) (fn_required f) of
             [] \<Rightarrow> Inr (argument_values kwargs)
           | m # ms \<Rightarrow> Inl (missing_arguments (fn_name f) (m # ms))))"

definition call_kwargs :: "'w handler \<Rightarrow> pydict \<Rightarrow> 'w \<Rightarrow> (exn + pydict) \<times> 'w" where
  "call_kwargs f kwargs w =
     (case bind_arguments f kwargs of
        Inl e \<Rightarrow> (Inl e, w)
      | Inr args \<Rightarrow> (case fn_body f args w of (result, w') \<Rightarrow> (Inr result, w')))"

text \<open>The keyword arguments are accepted: the binding raises nothing.\<close>

definition accepts :: "'w handler \<Rightarrow> pydict \<Rightarrow> bool" where
  "accepts f kwargs \<longleftrightarrow>
     list_all (\<lambda>k. k \<in> set (fn_required f @ fn_optional f)) (map fst kwargs) \<and>
     list_all (\<lambda>n. n \<in> set (map fst kwargs)) (fn_required f)"

definition TOOL_HANDLERS :: "('w, 'd) backend \<Rightarrow> (pystr \<times> 'w handler) list" where
  "TOOL_HANDLERS api =
     [(asc ''create_document'',
       \<lparr>fn_name = asc ''create_document'', fn_required = [],
        fn_optional = [asc ''filename'', asc ''title'', asc ''content''],
        fn_body = (\<lambda>a. create_document api (a (asc ''filename'')) (a (asc ''title''))
                          (a (asc ''content'')))\<rparr>),
      (asc ''read_document'',
       \<lparr>fn_name = asc ''read_document'', fn_required = [asc ''filename''], fn_optional = [],
        fn_body = (\<lambda>a. read_document api (a (asc ''filename'')))\<rparr>),
      (asc ''update_document'',
       \<lparr>fn_name = asc ''update_document'', fn_required = [asc ''filename'', asc ''action''],
        fn_optional = [asc ''content'', asc ''paragraph_index''],
        fn_body = (\<lambda>a. update_document api (a (asc ''filename'')) (a (asc ''action''))
                          (a (asc ''content'')) (a (asc ''paragraph_index'')))\<rparr>),
      (asc ''delete_document'',
       \<lparr>fn_name = asc ''delete_document'', fn_required = [asc ''filename''], fn_optional = [],
        fn_body = (\<lambda>a. delete_document api (a (asc ''filename'')))\<rparr>),
      (asc ''list_documents'',
       \<lparr>fn_name = asc ''list_documents'', fn_required = [], fn_optional = [],
        fn_body = (\<lambda>a. list_documents api)\<rparr>),
      (asc ''add_table'',
       \<lparr>fn_name = asc ''add_table'', fn_required = [asc ''filename'', asc ''table_data''],
        fn_optional = [asc ''title''],
        fn_body = (\<lambda>a. add_table api (a (asc ''filename'')) (a (asc ''table_data''))
                          (a (asc ''title'')))\<rparr>),
      (asc ''search_replace'',
       \<lparr>fn_name = asc ''search_replace'',
        fn_required = [asc ''filename'', asc ''search_text'', asc ''replace_text''],
        fn_optional = [],
        fn_body = (\<lambda>a. search_replace api (a (asc ''filename'')) (a (asc ''search_text''))
                          (a (asc ''replace_text'')))\<rparr>)]"

text \<open>The keys of \<open>TOOLS\<close>, in the order of the dict literal.\<close>

definition TOOLS_keys :: "pystr list" where
  "TOOLS_keys =
     [asc ''create_document'', asc ''read_document'', asc ''update_document'',
      asc ''delete_document'', asc ''list_documents'', asc ''add_table'', asc ''search_replace'']"

section \<open>\<open>call_tool\<close>\<close>

record tool_call_request =
  req_tool :: pystr
  req_params :: pydict

definition msg_unknown_tool :: pystr where
  "msg_unknown_tool = [26410, 30693, 24037, 20855] @ asc '': ''"

text \<open>
  The result returned, or the exception that leaves \<open>call_tool\<close>. The logging line reads
  \<open>result.get('success')\<close> and changes nothing.
\<close>

definition call_tool ::
  "('w, 'd) backend \<Rightarrow> tool_call_request \<Rightarrow> 'w \<Rightarrow> (exn + pydict) \<times> 'w" where
  "call_tool api request w =
     (let tool_name = req_tool request; params = req_params request
      in case map_of (TOOL_HANDLERS api) tool_name of
           None \<Rightarrow>
             (Inr [(asc ''success'', PBool False),
                   (asc ''error'', PStr (msg_unknown_tool @ tool_name))], w)
         | Some handler \<Rightarrow> call_kwargs handler params w)"

section \<open>The plan builder \<open>_react_doc_plan\<close>\<close>

record step =
  tool :: pystr
  label :: pystr
  params :: pydict

text \<open>The static content of the template: the introduction, the sections, the table.\<close>

definition intro_text :: "pystr \<Rightarrow> pystr" where
  "intro_text title =
     [12298] @ title @ [12299, 10, 10, 26412, 25991, 26723, 29992, 20110, 24555, 36895, 20102,
       35299] @ asc '' '' @ title @ asc '' '' @ [30340, 23450, 20301, 12289, 26680, 24515,
       27010, 24565, 19982, 23454, 36341, 24314, 35758, 65292, 24182, 32473, 20986, 19968,
       20010, 26368, 23567, 31034, 20363, 12290, 10]"

definition heading_1 :: pystr where
  "heading_1 = [19968, 12289] @ asc ''React '' @ [26159, 20160, 20040]"

definition body_1 :: pystr where
  "body_1 = str_join [10]
     [asc ''React '' @ [26159, 19968, 20010, 29992, 20110, 26500, 24314, 29992, 25143, 30028,
       38754, 65288] @ asc ''UI'' @ [65289, 30340] @ asc '' JavaScript '' @ [24211, 65292,
       26680, 24515, 24605, 24819, 26159, 29992, 32452, 20214, 21270, 30340, 26041, 24335,
       32452, 32455, 30028, 38754, 12290],
      [23427, 24378, 35843, 22768, 26126, 24335, 32534, 31243, 65306, 20320, 25551,
        36848] @ asc '' UI '' @ [22312, 26576, 20010, 29366, 24577, 19979, 24212, 35813, 38271,
        20160, 20040, 26679, 65292, 26694, 26550, 36127, 36131, 22312, 29366, 24577, 21464,
        21270, 26102, 39640, 25928, 26356, 26032, 30028, 38754, 12290],
      asc ''React '' @ [26412, 36523, 26356, 20851, 27880, 8220, 35270, 22270, 23618, 8221,
        65292, 36890, 24120, 20250, 37197, 21512, 36335, 30001, 12289, 29366, 24577, 31649,
        29702, 12289, 26500, 24314, 24037, 20855, 31561, 32452, 25104, 23436, 25972, 24037,
        31243, 26041, 26696, 12290]]"

definition heading_2 :: pystr where
  "heading_2 = [20108, 12289, 26680, 24515, 27010, 24565, 36895, 35272]"

definition body_2 :: pystr where
  "body_2 = str_join [10]
     [asc ''1) '' @ [32452, 20214, 65288] @ asc ''Component'' @ [65289, 65306,
       23558] @ asc '' UI '' @ [25286, 20998, 20026, 21487, 22797, 29992, 21333, 20803, 12290],
      asc ''2) JSX'' @ [65306, 19968, 31181] @ asc '' JavaScript '' @ [35821, 27861, 25193,
        23637, 65292, 29992, 20110, 26356, 30452, 35266, 22320, 25551,
        36848] @ asc '' UI '' @ [32467, 26500, 12290],
      asc ''3) Props / State'' @ [65306] @ asc ''props '' @ [29992, 20110, 29238, 20256, 23376,
        25968, 25454, 65307] @ asc ''state '' @ [29992, 20110, 32452, 20214, 20869, 37096,
        29366, 24577, 12290],
      asc ''4) Hooks'' @ [65306, 20989, 25968, 32452, 20214, 20013, 22797, 29992, 29366, 24577,
        36923, 36753, 65288, 22914] @ asc '' useState/useEffect/useMemo'' @ [65289, 12290],
      asc ''5) '' @ [28210, 26579, 19982, 26356, 26032, 65306] @ asc ''React '' @ [20250,
        22312, 29366, 24577, 21464, 21270, 21518, 35745, 31639, 26032,
        30340] @ asc '' UI'' @ [65292, 24182, 23558, 24046, 24322, 26356, 26032, 21040, 30495,
        23454] @ asc '' DOM'' @ [12290]]"

definition heading_3 :: pystr where
  "heading_3 = [19977, 12289] @ asc ''Hooks '' @ [20351, 29992, 24314, 35758]"

definition body_3 :: pystr where
  "body_3 = str_join [10]
     [asc ''useState'' @ [65306, 31649, 29702, 23616, 37096, 29366, 24577, 65307, 29366, 24577,
       26356, 26032, 23613, 37327, 20445, 25345, 19981, 21487, 21464, 25968, 25454, 32467,
       26500, 12290],
      asc ''useEffect'' @ [65306, 22788, 29702, 21103, 20316, 29992, 65288, 25968, 25454,
        35831, 27714, 12289, 35746, 38405, 12289] @ asc ''DOM '' @ [25805, 20316, 65289, 65307,
        27880, 24847, 28165, 29702, 20989, 25968, 36991, 20813, 27844, 28431, 12290],
      asc ''useMemo / useCallback'' @ [65306, 29992, 20110, 24615, 33021, 20248, 21270, 65292,
        36991, 20813, 19981, 24517, 35201, 30340, 37325, 26032, 35745, 31639, 19982, 20989,
        25968, 37325, 24314, 65288, 19981, 35201, 36807, 24230, 20351, 29992, 65289, 12290],
      [33258, 23450, 20041] @ asc '' Hook'' @ [65306, 25226, 21487, 22797, 29992, 36923, 36753,
        23553, 35013, 25104] @ asc '' useXxx'' @ [65292, 25552, 21319, 21487, 32500, 25252,
        24615, 12290]]"

definition heading_4 :: pystr where
  "heading_4 = [22235, 12289, 29983, 24577, 19982, 24037, 31243, 21270]"

definition body_4 :: pystr where
  "body_4 = str_join [10]
     [[36335, 30001, 65306] @ asc ''React Router'' @ [65288] @ asc ''Web '' @ [24212, 29992,
       24120, 29992, 65289, 12290],
      [29366, 24577, 31649, 29702, 65306] @ asc ''Redux Toolkit / Zustand / Jotai '' @ [31561,
        65288, 25353, 22797, 26434, 24230, 36873, 25321, 65289, 12290],
      [25968, 25454, 35831, 27714, 19982, 32531, 23384,
        65306] @ asc ''TanStack Query'' @ [65288] @ asc ''React Query'' @ [65289, 12290],
      [26500, 24314, 24037, 20855, 65306] @ asc ''Vite / Webpack'' @ [65307, 26694, 26550,
        21270, 26041, 26696, 21487,
        36873] @ asc '' Next.js'' @ [65288] @ asc ''SSR/SSG'' @ [65289, 12290],
      [31867, 22411, 31995, 32479,
        65306] @ asc ''TypeScript '' @ [19982] @ asc '' React '' @ [25645, 37197, 33021, 26174,
        33879, 25552, 21319, 22823, 22411, 39033, 30446, 31283, 23450, 24615, 12290]]"

definition heading_5 :: pystr where
  "heading_5 = [20116, 12289, 19968, 20010, 26368, 23567, 31034, 20363, 65288, 20989, 25968,
    32452, 20214] @ asc '' + Hooks'' @ [65289]"

definition body_5 :: pystr where
  "body_5 = str_join [10]
     [[19979, 38754, 31034, 20363, 23637, 31034, 19968, 20010, 35745, 25968, 22120, 65306],
      [],
      [96, 96, 96] @ asc ''tsx'',
      asc ''import { useState } from '' @ [39] @ asc ''react'' @ [39] @ asc '';'',
      [],
      asc ''export function Counter() {'',
      asc ''  const [count, setCount] = useState(0);'',
      asc ''  return ('',
      asc ''    <div>'',
      asc ''      <p>count: {count}</p>'',
      asc ''      <button onClick={() => setCount((c) => c + 1)}>+1</button>'',
      asc ''    </div>'',
      asc ''  );'',
      asc ''}'',
      [96, 96, 96]]"

definition heading_6 :: pystr where
  "heading_6 = [20845, 12289, 26368, 20339, 23454, 36341, 28165, 21333]"

definition body_6 :: pystr where
  "body_6 = str_join [10]
     [[32452, 20214, 32844, 36131, 21333, 19968, 65306, 23637, 31034, 32452, 20214, 19982,
       23481, 22120, 32452, 20214, 36866, 24230, 20998, 31163, 12290],
      [25968, 25454, 27969, 28165, 26224, 65306, 20248, 20808, 33258, 19978, 32780, 19979,
        20256, 36882, 65292, 36991, 20813, 36807, 26089, 24341, 20837, 20840, 23616, 29366,
        24577, 12290],
      [21103, 20316, 29992, 21487, 25511, 65306] @ asc ''useEffect '' @ [20381, 36182, 25968,
        32452, 20934, 30830, 65307, 24322, 27493, 35831, 27714, 27880, 24847, 21462,
        28040] @ asc ''/'' @ [24573, 30053, 36807, 26399, 21709, 24212, 12290],
      [24615, 33021, 20248, 21270, 26377, 20381, 25454, 65306, 20808, 29992, 24615, 33021,
        20998, 26512, 24037, 20855, 23450, 20301, 65292, 20877,
        29992] @ asc '' memo/useMemo/useCallback '' @ [20248, 21270, 12290],
      [21487, 27979, 35797, 24615, 65306, 22797, 26434, 36923, 36753, 25552, 21462, 20026,
        32431, 20989, 25968] @ asc ''/'' @ [33258, 23450, 20041] @ asc '' Hook'' @ [65292,
        20415, 20110, 21333, 27979, 12290]]"

definition heading_7 :: pystr where
  "heading_7 = [19971, 12289, 24635, 32467]"

definition body_7 :: "pystr \<Rightarrow> pystr" where
  "body_7 title = str_join [10]
     [title @ asc '' '' @ [36866, 21512, 26500, 24314, 32452, 20214, 21270, 12289, 21487,
       32500, 25252, 30340, 22823, 22411, 21069, 31471, 24212, 29992, 12290],
      [24314, 35758, 20174, 20989, 25968, 32452, 20214] @ asc '' + Hooks '' @ [20837, 25163,
        65292, 37197, 21512] @ asc '' TypeScript '' @ [19982, 29616, 20195, 26500, 24314,
        24037, 20855, 65288, 22914] @ asc '' Vite'' @ [65289, 24418, 25104, 31283, 23450,
        24037, 31243, 23454, 36341, 12290]]"

definition comparison_table :: pyval where
  "comparison_table = PList
     [PList [PStr ([32500, 24230]), PStr (asc ''React''), PStr (asc ''Vue''),
       PStr (asc ''Angular'')],
      PList [PStr ([23450, 20301]), PStr (asc ''UI '' @ [24211]), PStr ([28176, 36827, 24335,
        26694, 26550]), PStr ([20840, 23478, 26742, 26694, 26550])],
      PList [PStr ([23398, 20064, 26354, 32447]), PStr ([20013, 31561,
        65288] @ asc ''JS/TS + Hooks'' @ [65289]), PStr ([36739, 24179, 28369]), PStr ([36739,
        38497, 65288, 27010, 24565, 22810, 65289])],
      PList [PStr ([29983, 24577]), PStr ([38750, 24120, 20016, 23500]), PStr ([20016, 23500]),
        PStr ([20559, 20225, 19994, 32423])]]"

definition sections :: "pystr \<Rightarrow> (pystr \<times> pystr) list" where
  "sections title =
     [(heading_1, body_1), (heading_2, body_2), (heading_3, body_3), (heading_4, body_4),
      (heading_5, body_5), (heading_6, body_6), (heading_7, body_7 title)]"

definition label_create :: pystr where
  "label_create = [21019, 24314, 25991, 26723]"

definition label_heading :: "pystr \<Rightarrow> pystr" where
  "label_heading heading = [28155, 21152, 31456, 33410, 65306] @ heading"

definition label_body :: "pystr \<Rightarrow> pystr" where
  "label_body heading = [20889, 20837, 20869, 23481, 65306] @ heading"

definition label_table :: pystr where
  "label_table = [25554, 20837, 23545, 27604, 34920, 26684]"

definition table_title :: pystr where
  "table_title = asc ''React / Vue / Angular '' @ [23545, 27604, 65288, 31616, 34920, 65289]"

text \<open>The \<open>for\<close> loop over the sections: two steps appended to the plan for each.\<close>

fun append_sections :: "pystr \<Rightarrow> (pystr \<times> pystr) list \<Rightarrow> step list \<Rightarrow> step list" where
  "append_sections filename [] plan = plan"
| "append_sections filename ((heading, body) # rest) plan =
     append_sections filename rest
       (plan @
        [\<lparr>tool = asc ''update_document'', label = label_heading heading,
          params = [(asc ''filename'', PStr filename), (asc ''action'', PStr (asc ''add_heading'')),
                    (asc ''content'', PStr heading)]\<rparr>,
         \<lparr>tool = asc ''update_document'', label = label_body heading,
          params = [(asc ''filename'', PStr filename), (asc ''action'', PStr (asc ''append'')),
                    (asc ''content'', PStr body)]\<rparr>])"

definition react_doc_plan :: "pystr \<Rightarrow> pystr \<Rightarrow> step list" where
  "react_doc_plan title filename =
     (let plan = [\<lparr>tool = asc ''create_document'', label = label_create,
                   params = [(asc ''filename'', PStr filename), (asc ''title'', PStr title),
                             (asc ''content'', PStr (intro_text title))]\<rparr>];
          plan = append_sections filename (sections title) plan;
          plan = plan @
                 [\<lparr>tool = asc ''add_table'', label = label_table,
                   params = [(asc ''filename'', PStr filename), (asc ''title'', PStr table_title),
                             (asc ''table_data'', comparison_table)]\<rparr>]
      in plan)"

section \<open>Events\<close>

text \<open>
  An event is the JSON object that one \<open>yield\<close> serialises into a frame; its kind is the
  value under \<open>type\<close>.
\<close>

type_synonym event = pydict

definition event_type :: "event \<Rightarrow> pystr" where
  "event_type e = (case map_of e (asc ''type'') of Some (PStr k) \<Rightarrow> k | _ \<Rightarrow> [])"

definition agent_start_event :: event where
  "agent_start_event =
     [(asc ''type'', PStr (asc ''start'')), (asc ''tool'', PStr (asc ''agent'')),
      (asc ''message'', PStr [24320, 22987, 22810, 27493, 29983, 25104, 25991, 26723])]"

definition progress_event :: "nat \<Rightarrow> nat \<Rightarrow> pystr \<Rightarrow> event" where
  "progress_event idx n_steps lbl =
     [(asc ''type'', PStr (asc ''progress'')),
      (asc ''message'', PStr (asc ''['' @ str_int (int idx) @ asc ''/'' @ str_int (int n_steps) @
                             asc ''] '' @ lbl))]"

definition start_event :: "pystr \<Rightarrow> nat \<Rightarrow> pystr \<Rightarrow> event" where
  "start_event tool_name idx lbl =
     [(asc ''type'', PStr (asc ''start'')), (asc ''tool'', PStr tool_name),
      (asc ''step'', PInt (int idx)), (asc ''label'', PStr lbl)]"

definition error_event :: "pystr \<Rightarrow> nat \<Rightarrow> event" where
  "error_event tool_name idx =
     [(asc ''type'', PStr (asc ''error'')), (asc ''error'', PStr (msg_unknown_tool @ tool_name)),
      (asc ''step'', PInt (int idx))]"

definition result_event :: "pydict \<Rightarrow> pystr \<Rightarrow> nat \<Rightarrow> pystr \<Rightarrow> event" where
  "result_event result tool_name idx lbl =
     [(asc ''type'', PStr (asc ''result'')), (asc ''data'', PDict result),
      (asc ''tool'', PStr tool_name), (asc ''step'', PInt (int idx)), (asc ''label'', PStr lbl)]"

definition done_event :: "pystr \<Rightarrow> pystr \<Rightarrow> event" where
  "done_event filename title =
     [(asc ''type'', PStr (asc ''done'')),
      (asc ''data'', PDict [(asc ''filename'', PStr filename), (asc ''title'', PStr title)])]"

definition connected_event :: event where
  "connected_event =
     [(asc ''type'', PStr (asc ''connected'')),
      (asc ''message'', PStr (asc ''SSE '' @ [36830, 25509, 25104, 21151]))]"

definition tools_event :: event where
  "tools_event =
     [(asc ''type'', PStr (asc ''tools'')), (asc ''tools'', PList (map PStr TOOLS_keys))]"

definition heartbeat_event :: "pystr \<Rightarrow> event" where
  "heartbeat_event time =
     [(asc ''type'', PStr (asc ''heartbeat'')), (asc ''time'', PStr time)]"

section \<open>The orchestrator: \<open>stream_response\<close> of \<open>sse_agent\<close>\<close>

text \<open>
  How the \<open>for\<close> loop over the plan is left: it runs out of steps, the disconnection check
  breaks out of it, the unknown tool returns from the generator, or the handler call raises.
\<close>

datatype loop_exit = Exhausted | Break | Return | Raise exn

text \<open>
  The loop from step \<open>idx\<close> on, with the generator driven to its end: the events are
  listed in the order of the \<open>yield\<close>s. \<open>disconnected idx\<close> is the answer of
  \<open>await http_request.is_disconnected()\<close> at the check before step \<open>idx\<close>; \<open>n_steps\<close> is
  \<open>len(plan)\<close>. The result is the events yielded, the exit and the state of the backend.
\<close>

fun run_steps ::
  "('w, 'd) backend \<Rightarrow> (nat \<Rightarrow> bool) \<Rightarrow> nat \<Rightarrow> nat \<Rightarrow> step list \<Rightarrow> 'w \<Rightarrow>
   event list \<times> loop_exit \<times> 'w" where
  "run_steps api disconnected n_steps idx [] w = ([], Exhausted, w)"
| "run_steps api disconnected n_steps idx (step # rest) w =
     (if disconnected idx then ([], Break, w)
      else
        (let tool_name = tool step;
             lbl = (if label step \<noteq> [] then label step else tool_name);
             progress = progress_event idx n_steps lbl;
             start = start_event tool_name idx lbl
         in case map_of (TOOL_HANDLERS api) tool_name of
              None \<Rightarrow> ([progress, start, error_event tool_name idx], Return, w)
            | Some handler \<Rightarrow>
                (case call_kwargs handler (params step) w of
                   (Inl e, w') \<Rightarrow> ([progress, start], Raise e, w')
                 | (Inr result, w') \<Rightarrow>
                     (case run_steps api disconnected n_steps (Suc idx) rest w' of
                        (events, exit, w'') \<Rightarrow>
                          (progress # start # result_event result tool_name idx lbl # events,
                           exit, w'')))))"

text \<open>
  The loop and the statement after it. \<open>break\<close> leaves the loop only, so the final
  \<open>yield\<close> of the \<open>done\<close> event is reached; \<open>return\<close> and an exception leave the generator.
\<close>

definition execute_plan ::
  "('w, 'd) backend \<Rightarrow> (nat \<Rightarrow> bool) \<Rightarrow> pystr \<Rightarrow> pystr \<Rightarrow> step list \<Rightarrow> 'w \<Rightarrow>
   event list \<times> loop_exit \<times> 'w" where
  "execute_plan api disconnected filename title plan w =
     (case run_steps api disconnected (length plan) 1 plan w of
        (events, exit, w') \<Rightarrow>
          (events @
           (case exit of
              Exhausted \<Rightarrow> [done_event filename title]
            | Break \<Rightarrow> [done_event filename title]
            | Return \<Rightarrow> []
            | Raise e \<Rightarrow> []),
           exit, w'))"

definition stream_response ::
  "('w, 'd) backend \<Rightarrow> (nat \<Rightarrow> bool) \<Rightarrow> int \<Rightarrow> int \<Rightarrow> (nat \<Rightarrow> bool) \<Rightarrow> agent_request \<Rightarrow> 'w \<Rightarrow>
   event list \<times> loop_exit \<times> 'w" where
  "stream_response api ualnum secs millis disconnected request w =
     (let title = resolve_title request;
          filename = resolve_filename ualnum secs millis request;
          plan = react_doc_plan title filename
      in case execute_plan api disconnected filename title plan w of
           (events, exit, w') \<Rightarrow> (agent_start_event # events, exit, w'))"

section \<open>The bare subscription: \<open>event_generator\<close> of \<open>sse_endpoint\<close>\<close>

text \<open>
  The \<open>while True\<close> loop may run for ever, so the model has fuel: at most \<open>fuel\<close>
  iterations are run. \<open>disconnected i\<close> is the answer of the check of iteration \<open>i\<close>,
  \<open>now i\<close> the time that iteration reads. The flag says whether the generator has
  returned.
\<close>

fun heartbeat_loop ::
  "(nat \<Rightarrow> bool) \<Rightarrow> (nat \<Rightarrow> pystr) \<Rightarrow> nat \<Rightarrow> nat \<Rightarrow> event list \<times> bool" where
  "heartbeat_loop disconnected now i 0 = ([], False)"
| "heartbeat_loop disconnected now i (Suc fuel) =
     (if disconnected i then ([], True)
      else (case heartbeat_loop disconnected now (Suc i) fuel of
              (events, returned) \<Rightarrow> (heartbeat_event (now i) # events, returned)))"

definition event_generator ::
  "(nat \<Rightarrow> bool) \<Rightarrow> (nat \<Rightarrow> pystr) \<Rightarrow> nat \<Rightarrow> event list \<times> bool" where
  "event_generator disconnected now fuel =
     (case heartbeat_loop disconnected now 0 fuel of
        (events, returned) \<Rightarrow> (connected_event # tools_event # events, returned))"

section \<open>A backend in memory\<close>

text \<open>
  One instance of the backend, to run the model on concrete inputs: the file system is an
  association list from paths to documents, a document is the list of its paragraphs (of
  one run each), tables are not kept, and the clock stands still.
\<close>

definition need_str :: "pyval \<Rightarrow> exn + pystr" where
  "need_str v =
     (case v of
        PStr s \<Rightarrow> Inr s
      | _ \<Rightarrow> Inl (TypeError (asc ''expected str, not '' @ type_name v)))"

definition missing_file :: "pystr \<Rightarrow> exn" where
  "missing_file p = OtherException (asc ''FileNotFoundError'') (asc ''No such file: '' @ p)"

definition memory_backend :: "((pystr \<times> pystr list) list, pystr list) backend" where
  "memory_backend =
     \<lparr>py_repr = (\<lambda>v. asc ''...''),
      now_strftime = (\<lambda>w. asc ''20240101_000000''),
      path_new = need_str,
      path_is_absolute = starts_with (asc ''/''),
      path_in_word_dir = (\<lambda>v. case need_str v of Inl e \<Rightarrow> Inl e | Inr s \<Rightarrow> Inr (asc ''word/'' @ s)),
      path_name = (\<lambda>p. p),
      path_exists = (\<lambda>p w. Inr (map_of w p \<noteq> None)),
      path_stat = (\<lambda>p w. case map_of w p of
                           None \<Rightarrow> Inl (missing_file p)
                         | Some d \<Rightarrow> Inr \<lparr>st_size = int (length (concat d)),
                                         st_mtime_iso = asc ''2024-01-01T00:00:00''\<rparr>),
      path_unlink = (\<lambda>p w. (None, filter (\<lambda>kv. fst kv \<noteq> p) w)),
      path_glob_docx = (\<lambda>w. Inr (map fst w)),
      doc_new = Inr [],
      doc_open = (\<lambda>p w. case map_of w p of None \<Rightarrow> Inl (missing_file p) | Some d \<Rightarrow> Inr d),
      doc_save = (\<lambda>d p w. (None, (p, d) # filter (\<lambda>kv. fst kv \<noteq> p) w)),
      doc_add_heading = (\<lambda>v level d. case need_str v of Inl e \<Rightarrow> Inl e | Inr s \<Rightarrow> Inr (d @ [s])),
      doc_center_heading = Inr,
      doc_add_paragraph = (\<lambda>s d. Inr (d @ [s])),
      doc_paragraph_count = (\<lambda>d. Inr (length d)),
      doc_paragraph_texts = Inr,
      doc_table_texts = (\<lambda>d. Inr []),
      doc_insert_paragraph_before =
        (\<lambda>i v d. case need_str v of Inl e \<Rightarrow> Inl e | Inr s \<Rightarrow> Inr (take i d @ [s] @ drop i d)),
      doc_paragraph_clear = (\<lambda>i d. Inr (d[i := []])),
      doc_paragraph_add_run =
        (\<lambda>i v d. case need_str v of
                   Inl e \<Rightarrow> Inl e
                 | Inr s \<Rightarrow> Inr (map (\<lambda>(k, t). if k = i then t @ s else t) (zip [0..<length d] d))),
      doc_add_table = (\<lambda>rows cols d. Inr d),
      doc_set_table_style = (\<lambda>style d. Inr d),
      doc_set_cell_text = (\<lambda>i j text d. Inr d),
      doc_run_counts = (\<lambda>d. Inr (map (\<lambda>t. 1) d)),
      doc_run_text =
        (\<lambda>p r d. if p < length d \<and> r = 0 then Inr (d ! p)
                  else Inl (IndexError (asc ''list index out of range''))),
      doc_set_run_text = (\<lambda>p r text d. Inr (d[p := text]))\<rparr>"

section \<open>Predicates of the statements\<close>

text \<open>
  An \<open>OperationResult\<close>: a dict with a boolean under \<open>success\<close> and, when that is
  \<open>False\<close>, a string under \<open>error\<close>.
\<close>

definition operation_result :: "pydict \<Rightarrow> bool" where
  "operation_result r =
     (case map_of r (asc ''success'') of
        Some (PBool True) \<Rightarrow> True
      | Some (PBool False) \<Rightarrow>
          (case map_of r (asc ''error'') of Some (PStr e) \<Rightarrow> True | _ \<Rightarrow> False)
      | _ \<Rightarrow> False)"

text \<open>A step that names a registered handler and gives it keyword arguments it accepts.\<close>

definition callable :: "('w, 'd) backend \<Rightarrow> step \<Rightarrow> bool" where
  "callable api s =
     (case map_of (TOOL_HANDLERS api) (tool s) of
        None \<Rightarrow> False
      | Some h \<Rightarrow> accepts h (params s))"

section \<open>Facts about strings\<close>

lemma asc_eq_iff [simp]: "asc a = asc b \<longleftrightarrow> a = b"
  unfolding asc_def by (rule inj_map_eq_map) (simp add: inj_on_def)

lemma length_asc [simp]: "length (asc s) = length s"
  by (simp add: asc_def)

lemma asc_Nil_iff [simp]: "asc s = [] \<longleftrightarrow> s = []"
  by (simp add: asc_def)

lemma asc_underscore: "asc ''_'' = [underscore]"
  by (simp add: asc_def underscore_def)

lemma underscore_not_space: "\<not> is_space underscore"
  by (simp add: is_space_def underscore_def)

lemma sub_spaces_spaceless: "c \<in> set (sub_spaces s) \<Longrightarrow> \<not> is_space c"
proof (induction s rule: sub_spaces.induct)
  case 1
  then show ?case by simp
next
  case (2 c cs)
  then show ?case by (auto simp: underscore_not_space split: if_splits)
qed

lemma dropWhile_run:
  "\<forall>c \<in> set ws. is_space c \<Longrightarrow> b = [] \<or> \<not> is_space (hd b) \<Longrightarrow> dropWhile is_space (ws @ b) = b"
  by (induction ws) (auto simp: dropWhile_eq_self_iff)

text \<open>
  A run of whitespace between two pieces that do not touch it with whitespace of their
  own becomes exactly one underscore.
\<close>

lemma sub_spaces_run:
  assumes "ws \<noteq> []" and "\<forall>c \<in> set ws. is_space c"
    and "a = [] \<or> \<not> is_space (last a)" and "b = [] \<or> \<not> is_space (hd b)"
  shows "sub_spaces (a @ ws @ b) = sub_spaces a @ underscore # sub_spaces b"
  using assms
proof (induction a rule: sub_spaces.induct)
  case 1
  then obtain w ws' where ws: "ws = w # ws'" by (cases ws) auto
  with 1 show ?case using dropWhile_run[of ws' b] by auto
next
  case (2 c cs)
  show ?case
  proof (cases "is_space c")
    case True
    from True 2(5) have ne: "cs \<noteq> []" and lst: "\<not> is_space (last cs)"
      by (auto split: if_splits)
    then have mem: "last cs \<in> set cs" by simp
    have dw: "dropWhile is_space (cs @ ws @ b) = dropWhile is_space cs @ ws @ b"
      using mem lst by (rule dropWhile_append1)
    have dne: "dropWhile is_space cs \<noteq> []"
      using mem lst by (auto simp: dropWhile_eq_Nil_conv)
    have "last (dropWhile is_space cs) = last cs"
      using dne by (metis last_appendR takeWhile_dropWhile_id)
    then have "dropWhile is_space cs = [] \<or> \<not> is_space (last (dropWhile is_space cs))"
      using lst by simp
    from 2(1)[OF True 2(3) 2(4) this 2(6)] dw True show ?thesis by simp
  next
    case False
    then show ?thesis using 2 by (auto split: if_splits)
  qed
qed

lemma sanitize_filename_length: "length (sanitize_filename ualnum name) \<le> 40"
  by (simp add: sanitize_filename_def Let_def)

lemma sanitize_filename_kept: "c \<in> set (sanitize_filename ualnum name) \<Longrightarrow> kept ualnum c"
  by (auto simp: sanitize_filename_def Let_def sub_unsafe_def dest: in_set_takeD split: if_splits)

lemma resolve_base_name_length:
  "length (str_int secs) \<le> 36 \<Longrightarrow> length (resolve_base_name ualnum secs request) \<le> 40"
  by (simp add: resolve_base_name_def Let_def sanitize_filename_length)

lemma digits_chars: "c \<in> set (digits n) \<Longrightarrow> 48 \<le> c \<and> c \<le> 57"
proof (induction n rule: digits.induct)
  case (1 n)
  show ?case
  proof (cases "n < 10")
    case True
    with 1(2) show ?thesis by (simp add: digits.simps[of n])
  next
    case False
    with 1 show ?thesis by (auto simp: digits.simps[of n])
  qed
qed

lemma str_int_kept: "c \<in> set (str_int i) \<Longrightarrow> kept ualnum c"
  by (auto simp: str_int_def kept_def is_word_def is_ascii_alnum_def hyphen_def
      dest!: digits_chars split: if_splits)

lemma str_int_nonempty: "str_int i \<noteq> []"
  by (simp add: str_int_def digits.simps[of "nat i"] digits.simps[of "nat (- i)"])

lemma resolve_base_name_kept: "c \<in> set (resolve_base_name ualnum secs request) \<Longrightarrow> kept ualnum c"
  by (auto simp: resolve_base_name_def Let_def asc_def kept_def is_word_def is_ascii_alnum_def
      underscore_def dest: sanitize_filename_kept str_int_kept split: if_splits)

lemma resolve_filename_kept:
  "c \<in> set (resolve_filename ualnum secs millis request) \<Longrightarrow> kept ualnum c"
  by (auto simp: resolve_filename_def asc_def dest: resolve_base_name_kept str_int_kept)
     (simp add: kept_def underscore_def)

lemma resolve_base_name_min: "3 \<le> length (resolve_base_name ualnum secs request)"
  by (simp add: resolve_base_name_def Let_def)

lemmas normalise_eval =
  asc_def str_int_def digits.simps strip_def is_space_def underscore_def hyphen_def
  sanitize_filename_def sub_unsafe_def kept_def is_word_def is_cjk_def is_ascii_alnum_def
  resolve_filename_def resolve_base_name_def resolve_title_def str_or_def
  new_document_title_def Let_def

section \<open>The sanitised name and the document identifier\<close>

text \<open>
  C5. For every input string the sanitised base contains only characters that are a word
  character, an underscore, a hyphen or in the CJK range, and it has at most 40 characters.
  Before the unsafe characters are deleted no whitespace is left, and a run of whitespace
  inside the name has become one underscore. The document identifier is made of the same
  kinds of characters, and it has at most 40 + 1 + (the number of characters of the
  millisecond timestamp) characters, for every reading of the clock in seconds that prints
  in at most 36 characters; every value of \<open>datetime.now().timestamp()\<close> does.
\<close>

theorem sanitize_filename_safe:
  "(\<forall>c \<in> set (sanitize_filename ualnum name).
      is_word ualnum c \<or> c = underscore \<or> c = hyphen \<or> is_cjk c) \<and>
   length (sanitize_filename ualnum name) \<le> 40 \<and>
   (\<forall>c \<in> set (sub_spaces (strip name)). \<not> is_space c) \<and>
   (\<forall>a ws b. ws \<noteq> [] \<and> (\<forall>c \<in> set ws. is_space c) \<and> (a = [] \<or> \<not> is_space (last a)) \<and>
      (b = [] \<or> \<not> is_space (hd b)) \<longrightarrow>
      sub_spaces (a @ ws @ b) = sub_spaces a @ [underscore] @ sub_spaces b) \<and>
   (\<forall>c \<in> set (resolve_filename ualnum secs millis request).
      is_word ualnum c \<or> c = underscore \<or> c = hyphen \<or> is_cjk c) \<and>
   (length (str_int secs) \<le> 36 \<longrightarrow>
      length (resolve_filename ualnum secs millis request) \<le> 40 + 1 + length (str_int millis))"
proof (intro conjI allI impI ballI)
  fix c assume "c \<in> set (sanitize_filename ualnum name)"
  then have "kept ualnum c" by (rule sanitize_filename_kept)
  then show "is_word ualnum c \<or> c = underscore \<or> c = hyphen \<or> is_cjk c"
    by (auto simp: kept_def)
next
  show "length (sanitize_filename ualnum name) \<le> 40" by (rule sanitize_filename_length)
next
  fix c assume "c \<in> set (sub_spaces (strip name))"
  then show "\<not> is_space c" by (rule sub_spaces_spaceless)
next
  fix a ws b
  assume "ws \<noteq> [] \<and> (\<forall>c \<in> set ws. is_space c) \<and> (a = [] \<or> \<not> is_space (last a)) \<and>
      (b = [] \<or> \<not> is_space (hd b))"
  then show "sub_spaces (a @ ws @ b) = sub_spaces a @ [underscore] @ sub_spaces b"
    using sub_spaces_run[of ws a b] by simp
next
  fix c assume "c \<in> set (resolve_filename ualnum secs millis request)"
  then have "kept ualnum c" by (rule resolve_filename_kept)
  then show "is_word ualnum c \<or> c = underscore \<or> c = hyphen \<or> is_cjk c"
    by (auto simp: kept_def)
next
  assume "length (str_int secs) \<le> 36"
  then have "length (resolve_base_name ualnum secs request) \<le> 40"
    by (rule resolve_base_name_length)
  then show "length (resolve_filename ualnum secs millis request) \<le> 40 + 1 + length (str_int millis)"
    by (simp add: resolve_filename_def)
qed

theorem sanitize_filename_safe_witness:
  "sanitize_filename (\<lambda>c. False) (asc ''  my  file!.docx '') = asc ''my_filedocx'' \<and>
   list_all (\<lambda>c. is_word (\<lambda>c. False) c \<or> c = underscore \<or> c = hyphen \<or> is_cjk c)
     (sanitize_filename (\<lambda>c. False) (asc ''  my  file!.docx '')) \<and>
   sub_spaces (asc ''my'' @ [32, 9] @ asc ''file'') =
     sub_spaces (asc ''my'') @ [underscore] @ sub_spaces (asc ''file'') \<and>
   length (str_int 1700000000) \<le> 36 \<and>
   length (resolve_filename (\<lambda>c. False) 1700000000 1700000000123
             \<lparr>req_query = asc ''React'', req_title = None, req_filename = Some (asc ''a'')\<rparr>)
     \<le> 40 + 1 + length (str_int 1700000000123)"
proof -
  note inst = sanitize_filename_safe[of "\<lambda>c. False" "asc ''  my  file!.docx ''" 1700000000
      1700000000123 "\<lparr>req_query = asc ''React'', req_title = None, req_filename = Some (asc ''a'')\<rparr>"]
  have san: "sanitize_filename (\<lambda>c. False) (asc ''  my  file!.docx '') = asc ''my_filedocx''"
    by (simp add: normalise_eval)
  have chars: "list_all (\<lambda>c. is_word (\<lambda>c. False) c \<or> c = underscore \<or> c = hyphen \<or> is_cjk c)
     (sanitize_filename (\<lambda>c. False) (asc ''  my  file!.docx ''))"
    using inst unfolding list_all_iff by blast
  have run: "[32, 9] \<noteq> [] \<and> (\<forall>c \<in> set [32, 9]. is_space c) \<and>
      (asc ''my'' = [] \<or> \<not> is_space (last (asc ''my''))) \<and>
      (asc ''file'' = [] \<or> \<not> is_space (hd (asc ''file'')))"
    by (simp add: is_space_def asc_def)
  have collapsed: "sub_spaces (asc ''my'' @ [32, 9] @ asc ''file'') =
     sub_spaces (asc ''my'') @ [underscore] @ sub_spaces (asc ''file'')"
    using inst run by blast
  have clock: "length (str_int 1700000000) \<le> 36"
    by (simp add: str_int_def digits.simps)
  from inst clock san chars collapsed show ?thesis by blast
qed

section \<open>Request normalisation\<close>

text \<open>
  C6. Normalisation has no failing branch and the identifier is never empty. The title is
  the trimmed request title when that is not empty, else the trimmed query when that is
  not empty, else the fallback literal. The base is the sanitised file name when one is
  given (present and not the empty string) and else the sanitised title, replaced by
  \<open>doc_\<close> and the clock in seconds when it has fewer than 3 characters, so the base has
  at least 3 characters. The identifier is the base, an underscore and the clock in
  milliseconds, which is not empty.
\<close>

theorem normalize_request:
  "resolve_title request =
     (if strip (case req_title request of None \<Rightarrow> [] | Some t \<Rightarrow> t) \<noteq> []
      then strip (case req_title request of None \<Rightarrow> [] | Some t \<Rightarrow> t)
      else if strip (req_query request) \<noteq> [] then strip (req_query request)
      else [26032, 25991, 26723]) \<and>
   resolve_title request \<noteq> [] \<and>
   resolve_base_name ualnum secs request =
     (let given = (case req_filename request of
                     None \<Rightarrow> resolve_title request
                   | Some f \<Rightarrow> if f = [] then resolve_title request else f);
          base = sanitize_filename ualnum given
      in if length base < 3 then asc ''doc_'' @ str_int secs else base) \<and>
   3 \<le> length (resolve_base_name ualnum secs request) \<and>
   resolve_filename ualnum secs millis request =
     resolve_base_name ualnum secs request @ [underscore] @ str_int millis \<and>
   str_int millis \<noteq> [] \<and>
   resolve_filename ualnum secs millis request \<noteq> []"
proof -
  have strip_Nil: "strip [] = []" by (simp add: strip_def)
  have title: "resolve_title request =
     (if strip (case req_title request of None \<Rightarrow> [] | Some t \<Rightarrow> t) \<noteq> []
      then strip (case req_title request of None \<Rightarrow> [] | Some t \<Rightarrow> t)
      else if strip (req_query request) \<noteq> [] then strip (req_query request)
      else [26032, 25991, 26723])"
    by (auto simp: resolve_title_def str_or_def Let_def new_document_title_def strip_Nil
        split: option.splits)
  have nonempty: "resolve_title request \<noteq> []"
    unfolding title by simp
  have base: "resolve_base_name ualnum secs request =
     (let given = (case req_filename request of
                     None \<Rightarrow> resolve_title request
                   | Some f \<Rightarrow> if f = [] then resolve_title request else f);
          base = sanitize_filename ualnum given
      in if length base < 3 then asc ''doc_'' @ str_int secs else base)"
    by (auto simp: resolve_base_name_def str_or_def Let_def split: option.splits)
  have ident: "resolve_filename ualnum secs millis request =
     resolve_base_name ualnum secs request @ [underscore] @ str_int millis"
    by (simp add: resolve_filename_def asc_underscore)
  from title nonempty base ident resolve_base_name_min[of ualnum secs request]
    str_int_nonempty[of millis]
  show ?thesis by simp
qed

section \<open>The shape of the plan\<close>

lemma append_sections_eq:
  "append_sections filename secs plan =
   plan @ concat (map (\<lambda>(heading, body). append_sections filename [(heading, body)] []) secs)"
  by (induction filename secs plan rule: append_sections.induct) auto

lemma length_sections: "length (sections title) = 7"
  by (simp add: sections_def)

lemma length_append_sections:
  "length (append_sections filename secs plan) = length plan + 2 * length secs"
  by (induction filename secs plan rule: append_sections.induct) auto

lemma react_doc_plan_length: "length (react_doc_plan title filename) = 16"
  by (simp add: react_doc_plan_def Let_def length_append_sections length_sections)

lemma kinds_append_sections:
  "map (\<lambda>s. (tool s, map_of (params s) (asc ''action''))) (append_sections filename secs plan) =
   map (\<lambda>s. (tool s, map_of (params s) (asc ''action''))) plan @
   concat (replicate (length secs)
     [(asc ''update_document'', Some (PStr (asc ''add_heading''))),
      (asc ''update_document'', Some (PStr (asc ''append'')))])"
  by (induction filename secs plan rule: append_sections.induct) auto

text \<open>
  C3. For every title and document identifier the plan has 1 + 2N + 1 steps, where N = 7
  is the number of sections, so 16 steps. The first step is \<open>create_document\<close>, the last
  is \<open>add_table\<close>, and between them come, section by section, an \<open>update_document\<close> with
  action \<open>add_heading\<close> and an \<open>update_document\<close> with action \<open>append\<close>.
\<close>

theorem react_doc_plan_shape:
  "length (react_doc_plan title filename) = 1 + 2 * length (sections title) + 1 \<and>
   length (sections title) = 7 \<and>
   length (react_doc_plan title filename) = 16 \<and>
   tool (hd (react_doc_plan title filename)) = asc ''create_document'' \<and>
   tool (last (react_doc_plan title filename)) = asc ''add_table'' \<and>
   map (\<lambda>s. (tool s, map_of (params s) (asc ''action''))) (react_doc_plan title filename) =
     [(asc ''create_document'', None)] @
     concat (replicate 7
       [(asc ''update_document'', Some (PStr (asc ''add_heading''))),
        (asc ''update_document'', Some (PStr (asc ''append'')))]) @
     [(asc ''add_table'', None)]"
proof -
  let ?p = "react_doc_plan title filename"
  have len: "length ?p = 1 + 2 * length (sections title) + 1"
    by (simp add: react_doc_plan_def Let_def length_append_sections)
  have first: "tool (hd ?p) = asc ''create_document''"
    by (simp add: react_doc_plan_def Let_def append_sections_eq[of _ _ "[x]" for x])
  have lst: "tool (last ?p) = asc ''add_table''"
    by (simp add: react_doc_plan_def Let_def)
  have kinds: "map (\<lambda>s. (tool s, map_of (params s) (asc ''action''))) ?p =
     [(asc ''create_document'', None)] @
     concat (replicate (length (sections title))
       [(asc ''update_document'', Some (PStr (asc ''add_heading''))),
        (asc ''update_document'', Some (PStr (asc ''append'')))]) @
     [(asc ''add_table'', None)]"
    by (simp add: react_doc_plan_def Let_def kinds_append_sections)
  from len first lst kinds show ?thesis
    by (simp only: length_sections) simp
qed

section \<open>The handlers never raise\<close>

lemma except_Exception_result:
  assumes "\<And>r w'. body = (Inr r, w') \<Longrightarrow> operation_result r"
  shows "operation_result (fst (except_Exception body))"
proof (cases body)
  case (Pair x w')
  show ?thesis
  proof (cases x)
    case (Inl e)
    with Pair show ?thesis by (simp add: except_Exception_def operation_result_def)
  next
    case (Inr r)
    with Pair assms show ?thesis by (simp add: except_Exception_def)
  qed
qed

lemma create_document_try_result:
  "create_document_try api filename title content w = (Inr r, w') \<Longrightarrow> operation_result r"
  by (auto simp: create_document_try_def Let_def operation_result_def
      split: sum.splits prod.splits option.splits if_splits)

lemma read_document_try_result:
  "read_document_try api filename w = (Inr r, w') \<Longrightarrow> operation_result r"
  by (auto simp: read_document_try_def operation_result_def not_found_def
      split: sum.splits prod.splits option.splits if_splits)

lemma update_document_try_result:
  "update_document_try api filename action content paragraph_index w = (Inr r, w') \<Longrightarrow>
   operation_result r"
  by (auto simp: update_document_try_def operation_result_def not_found_def
      split: sum.splits prod.splits option.splits if_splits)

lemma delete_document_try_result:
  "delete_document_try api filename w = (Inr r, w') \<Longrightarrow> operation_result r"
  by (auto simp: delete_document_try_def operation_result_def not_found_def
      split: sum.splits prod.splits option.splits if_splits)

lemma list_documents_try_result:
  "list_documents_try api w = (Inr r, w') \<Longrightarrow> operation_result r"
  by (auto simp: list_documents_try_def operation_result_def
      split: sum.splits prod.splits option.splits if_splits)

lemma add_table_try_result:
  "add_table_try api filename table_data title w = (Inr r, w') \<Longrightarrow> operation_result r"
  by (auto simp: add_table_try_def operation_result_def not_found_def
      split: sum.splits prod.splits option.splits if_splits)

lemma search_replace_try_result:
  "search_replace_try api filename search_text replace_text w = (Inr r, w') \<Longrightarrow>
   operation_result r"
  by (auto simp: search_replace_try_def operation_result_def not_found_def
      split: sum.splits prod.splits option.splits if_splits)

lemma handler_results:
  "operation_result (fst (create_document api filename title content w))"
  "operation_result (fst (read_document api filename w))"
  "operation_result (fst (update_document api filename action content paragraph_index w))"
  "operation_result (fst (delete_document api filename w))"
  "operation_result (fst (list_documents api w))"
  "operation_result (fst (add_table api filename table_data title w))"
  "operation_result (fst (search_replace api filename search_text replace_text w))"
  unfolding create_document_def read_document_def update_document_def delete_document_def
    list_documents_def add_table_def search_replace_def
  by (rule except_Exception_result, erule create_document_try_result read_document_try_result
      update_document_try_result delete_document_try_result list_documents_try_result
      add_table_try_result search_replace_try_result)+

lemma registry_result:
  "(name, f) \<in> set (TOOL_HANDLERS api) \<Longrightarrow> operation_result (fst (fn_body f args w))"
  by (auto simp: TOOL_HANDLERS_def handler_results)

lemma registry_keys: "map fst (TOOL_HANDLERS api) = TOOLS_keys"
  by (simp add: TOOL_HANDLERS_def TOOLS_keys_def)

text \<open>
  C7. Every registered handler is total on its parameters: for every behaviour of the
  backend, every state and every value of its parameters (of any type, \<open>None\<close>
  included), it returns a dict with a boolean \<open>success\<close>, and with a string \<open>error\<close> when
  \<open>success\<close> is false; no exception leaves it. The seven functions are the values of the
  registry.
\<close>

theorem handlers_total:
  "operation_result (fst (create_document api filename title content w)) \<and>
   operation_result (fst (read_document api filename w)) \<and>
   operation_result (fst (update_document api filename action content paragraph_index w)) \<and>
   operation_result (fst (delete_document api filename w)) \<and>
   operation_result (fst (list_documents api w)) \<and>
   operation_result (fst (add_table api filename table_data title w)) \<and>
   operation_result (fst (search_replace api filename search_text replace_text w)) \<and>
   (\<forall>(name, f) \<in> set (TOOL_HANDLERS api). \<forall>args w. operation_result (fst (fn_body f args w))) \<and>
   map fst (TOOL_HANDLERS api) =
     [asc ''create_document'', asc ''read_document'', asc ''update_document'',
      asc ''delete_document'', asc ''list_documents'', asc ''add_table'', asc ''search_replace'']"
  using registry_result[of _ _ api] registry_keys[of api]
  by (auto simp: handler_results TOOLS_keys_def)

lemma memory_create_document_int:
  "fst (create_document memory_backend (PInt 5) PNone PNone []) =
     [(asc ''success'', PBool False), (asc ''error'', PStr (asc ''expected str, not int''))]"
  by (simp add: create_document_def create_document_try_def except_Exception_def
      get_file_path_def memory_backend_def need_str_def asc_def)

theorem handlers_total_witness:
  "fst (create_document memory_backend (PInt 5) PNone PNone []) =
     [(asc ''success'', PBool False), (asc ''error'', PStr (asc ''expected str, not int''))] \<and>
   operation_result (fst (create_document memory_backend (PInt 5) PNone PNone [])) \<and>
   operation_result (fst (search_replace memory_backend (PInt 5) PNone (PList []) []))"
  using handlers_total[where api = memory_backend and filename = "PInt 5" and title = PNone
      and content = PNone and w = "[]" and search_text = PNone and replace_text = "PList []"]
    memory_create_document_int
  by blast

section \<open>Binding keyword arguments\<close>

lemma find_None_list_all: "find P xs = None \<longleftrightarrow> list_all (\<lambda>x. \<not> P x) xs"
  by (induction xs) auto

lemma filter_Nil_list_all: "filter P xs = [] \<longleftrightarrow> list_all (\<lambda>x. \<not> P x) xs"
  by (induction xs) auto

lemma map_of_None_keys: "map_of kwargs n = None \<longleftrightarrow> n \<notin> set (map fst kwargs)"
  by (simp add: map_of_eq_None_iff)

lemma bind_arguments_accepts:
  "accepts f kwargs \<Longrightarrow> bind_arguments f kwargs = Inr (argument_values kwargs)"
  unfolding accepts_def bind_arguments_def
  by (auto simp: find_None_list_all filter_Nil_list_all map_of_None_keys list_all_iff
      split: option.splits list.splits)

lemma bind_arguments_rejects:
  "\<not> accepts f kwargs \<Longrightarrow> \<exists>m. bind_arguments f kwargs = Inl (TypeError m)"
  unfolding accepts_def bind_arguments_def unexpected_keyword_def missing_arguments_def
  by (auto simp: find_None_list_all filter_Nil_list_all map_of_None_keys list_all_iff
      split: option.splits list.splits)

lemma call_kwargs_accepts:
  "accepts f kwargs \<Longrightarrow>
   call_kwargs f kwargs w =
     (Inr (fst (fn_body f (argument_values kwargs) w)),
      snd (fn_body f (argument_values kwargs) w))"
  by (simp add: call_kwargs_def bind_arguments_accepts split: prod.splits)

lemma call_kwargs_rejects:
  "\<not> accepts f kwargs \<Longrightarrow> \<exists>m. call_kwargs f kwargs w = (Inl (TypeError m), w)"
  using bind_arguments_rejects[of f kwargs] by (auto simp: call_kwargs_def)

section \<open>Direct invocation\<close>

lemma lookup_list_documents:
  "map_of (TOOL_HANDLERS api) (asc ''list_documents'') =
     Some \<lparr>fn_name = asc ''list_documents'', fn_required = [], fn_optional = [],
           fn_body = (\<lambda>a. list_documents api)\<rparr>"
  by (simp add: TOOL_HANDLERS_def)

lemma lookup_read_document:
  "map_of (TOOL_HANDLERS api) (asc ''read_document'') =
     Some \<lparr>fn_name = asc ''read_document'', fn_required = [asc ''filename''], fn_optional = [],
           fn_body = (\<lambda>a. read_document api (a (asc ''filename'')))\<rparr>"
  by (simp add: TOOL_HANDLERS_def)

lemma lookup_update_document:
  "map_of (TOOL_HANDLERS api) (asc ''update_document'') =
     Some \<lparr>fn_name = asc ''update_document'', fn_required = [asc ''filename'', asc ''action''],
           fn_optional = [asc ''content'', asc ''paragraph_index''],
           fn_body = (\<lambda>a. update_document api (a (asc ''filename'')) (a (asc ''action''))
                             (a (asc ''content'')) (a (asc ''paragraph_index'')))\<rparr>"
  by (simp add: TOOL_HANDLERS_def)

lemma lookup_typeset: "map_of (TOOL_HANDLERS api) (asc ''typeset'') = None"
  by (simp add: TOOL_HANDLERS_def)

lemma memory_list_documents:
  "list_documents memory_backend [] =
     ([(asc ''success'', PBool True), (asc ''count'', PInt 0), (asc ''documents'', PList [])], [])"
  by (simp add: list_documents_def list_documents_try_def except_Exception_def memory_backend_def)

lemma memory_update_document:
  "update_document memory_backend (PStr (asc ''x'')) (PStr (asc ''append'')) (PStr (asc ''hi''))
     PNone [] =
     ([(asc ''success'', PBool False), (asc ''error'', PStr (msg_not_found @ asc ''x''))], [])"
  by (simp add: update_document_def update_document_try_def except_Exception_def
      get_file_path_def not_found_def py_str_def ends_with_def memory_backend_def need_str_def
      asc_def)

lemma missing_filename:
  "missing_arguments (asc ''read_document'') [asc ''filename''] =
   TypeError (asc ''read_document() missing 1 required positional argument: '' @
              quoted (asc ''filename''))"
  by (simp add: missing_arguments_def str_int_def digits.simps asc_def)

text \<open>
  C9, amended. A direct invocation of a name that is not in the registry returns the
  failure result that names it, and raises nothing. When the name is registered and the
  request's parameters are keyword arguments the handler accepts (none undeclared, none of
  the required ones missing), the call returns exactly the handler's result on those
  arguments, which is an OperationResult. When the handler does not accept them, the
  binding of \<open>handler(**params)\<close> raises \<open>TypeError\<close> out of \<open>call_tool\<close>.
\<close>

theorem call_tool_result:
  "(map_of (TOOL_HANDLERS api) (req_tool request) = None \<longrightarrow>
      call_tool api request w =
        (Inr [(asc ''success'', PBool False),
              (asc ''error'', PStr (msg_unknown_tool @ req_tool request))], w)) \<and>
   (\<forall>h. map_of (TOOL_HANDLERS api) (req_tool request) = Some h \<and> accepts h (req_params request) \<longrightarrow>
      call_tool api request w =
        (Inr (fst (fn_body h (argument_values (req_params request)) w)),
         snd (fn_body h (argument_values (req_params request)) w)) \<and>
      operation_result (fst (fn_body h (argument_values (req_params request)) w))) \<and>
   (\<forall>h. map_of (TOOL_HANDLERS api) (req_tool request) = Some h \<and>
        \<not> accepts h (req_params request) \<longrightarrow>
      (\<exists>m. call_tool api request w = (Inl (TypeError m), w)))"
proof (intro conjI allI impI)
  assume "map_of (TOOL_HANDLERS api) (req_tool request) = None"
  then show "call_tool api request w =
        (Inr [(asc ''success'', PBool False),
              (asc ''error'', PStr (msg_unknown_tool @ req_tool request))], w)"
    by (simp add: call_tool_def)
next
  fix h
  assume a: "map_of (TOOL_HANDLERS api) (req_tool request) = Some h \<and> accepts h (req_params request)"
  then show "call_tool api request w =
        (Inr (fst (fn_body h (argument_values (req_params request)) w)),
         snd (fn_body h (argument_values (req_params request)) w))"
    by (simp add: call_tool_def call_kwargs_accepts)
  from a have "(req_tool request, h) \<in> set (TOOL_HANDLERS api)"
    by (auto dest: map_of_SomeD)
  then show "operation_result (fst (fn_body h (argument_values (req_params request)) w))"
    by (rule registry_result)
next
  fix h
  assume "map_of (TOOL_HANDLERS api) (req_tool request) = Some h \<and>
        \<not> accepts h (req_params request)"
  then show "\<exists>m. call_tool api request w = (Inl (TypeError m), w)"
    using call_kwargs_rejects[of h "req_params request" w] by (simp add: call_tool_def)
qed

theorem call_tool_result_witness:
  "call_tool memory_backend \<lparr>req_tool = asc ''typeset'', req_params = []\<rparr> [] =
     (Inr [(asc ''success'', PBool False), (asc ''error'', PStr (msg_unknown_tool @ asc ''typeset''))],
      []) \<and>
   call_tool memory_backend \<lparr>req_tool = asc ''list_documents'', req_params = []\<rparr> [] =
     (Inr [(asc ''success'', PBool True), (asc ''count'', PInt 0), (asc ''documents'', PList [])],
      [])"
proof -
  have unknown: "map_of (TOOL_HANDLERS memory_backend)
      (req_tool \<lparr>req_tool = asc ''typeset'', req_params = []\<rparr>) = None"
    by (simp add: lookup_typeset)
  have known: "map_of (TOOL_HANDLERS memory_backend)
      (req_tool \<lparr>req_tool = asc ''list_documents'', req_params = []\<rparr>) =
      Some \<lparr>fn_name = asc ''list_documents'', fn_required = [], fn_optional = [],
            fn_body = (\<lambda>a. list_documents memory_backend)\<rparr> \<and>
      accepts \<lparr>fn_name = asc ''list_documents'', fn_required = [], fn_optional = [],
            fn_body = (\<lambda>a. list_documents memory_backend)\<rparr>
        (req_params \<lparr>req_tool = asc ''list_documents'', req_params = []\<rparr>)"
    by (simp add: lookup_list_documents accepts_def)
  from call_tool_result[of memory_backend "\<lparr>req_tool = asc ''typeset'', req_params = []\<rparr>" "[]"]
    unknown
  have first: "call_tool memory_backend \<lparr>req_tool = asc ''typeset'', req_params = []\<rparr> [] =
     (Inr [(asc ''success'', PBool False), (asc ''error'', PStr (msg_unknown_tool @ asc ''typeset''))],
      [])"
    by simp
  from call_tool_result[of memory_backend
      "\<lparr>req_tool = asc ''list_documents'', req_params = []\<rparr>" "[]"] known
  have "call_tool memory_backend \<lparr>req_tool = asc ''list_documents'', req_params = []\<rparr> [] =
     (Inr (fst (list_documents memory_backend [])), snd (list_documents memory_backend []))"
    by simp
  then have second:
    "call_tool memory_backend \<lparr>req_tool = asc ''list_documents'', req_params = []\<rparr> [] =
     (Inr [(asc ''success'', PBool True), (asc ''count'', PInt 0), (asc ''documents'', PList [])],
      [])"
    by (simp add: memory_list_documents)
  from first second show ?thesis by simp
qed

text \<open>
  C9 as stated fails: \<open>read_document\<close> is registered, and a request for it with the
  default empty parameters returns no result; the call raises.
\<close>

theorem call_tool_registered_raises:
  "map_of (TOOL_HANDLERS memory_backend) (asc ''read_document'') \<noteq> None \<and>
   call_tool memory_backend \<lparr>req_tool = asc ''read_document'', req_params = []\<rparr> [] =
     (Inl (TypeError (asc ''read_document() missing 1 required positional argument: '' @
                      quoted (asc ''filename''))), [])"
  by (simp add: call_tool_def lookup_read_document call_kwargs_def bind_arguments_def
      missing_filename)

section \<open>The loop over the plan\<close>

lemma run_steps_append:
  "run_steps api d n idx pre w = (evs, Exhausted, w') \<Longrightarrow>
   run_steps api d n idx (pre @ rest) w =
     (case run_steps api d n (idx + length pre) rest w' of
        (evs2, exit, w'') \<Rightarrow> (evs @ evs2, exit, w''))"
proof (induction pre arbitrary: idx w evs)
  case Nil
  then show ?case by (auto split: prod.splits)
next
  case (Cons s pre)
  then show ?case
    by (auto simp: Let_def split: if_splits option.splits prod.splits sum.splits)
qed

lemma run_steps_exhausted_types:
  "run_steps api d n idx pre w = (evs, Exhausted, w') \<Longrightarrow>
   map event_type evs =
     concat (replicate (length pre) [asc ''progress'', asc ''start'', asc ''result''])"
proof (induction pre arbitrary: idx w evs)
  case Nil
  then show ?case by simp
next
  case (Cons s pre)
  then show ?case
    by (auto simp: Let_def event_type_def progress_event_def start_event_def result_event_def
        split: if_splits option.splits prod.splits sum.splits)
qed

lemma run_steps_callable:
  "\<forall>s \<in> set plan. callable api s \<Longrightarrow>
   \<exists>evs w'. run_steps api (\<lambda>i. False) n idx plan w = (evs, Exhausted, w')"
proof (induction plan arbitrary: idx w)
  case Nil
  then show ?case by simp
next
  case (Cons s plan)
  from Cons.prems(1) obtain h where h: "map_of (TOOL_HANDLERS api) (tool s) = Some h"
    and acc: "accepts h (params s)"
    by (auto simp: callable_def split: option.splits)
  obtain r w1 where call: "call_kwargs h (params s) w = (Inr r, w1)"
    using call_kwargs_accepts[OF acc] by blast
  from Cons.IH[of "Suc idx" w1] Cons.prems obtain evs w' where
    "run_steps api (\<lambda>i. False) n (Suc idx) plan w1 = (evs, Exhausted, w')" by auto
  with h call show ?case by (simp add: Let_def)
qed

lemma run_steps_no_unknown:
  "\<forall>s \<in> set plan. callable api s \<Longrightarrow>
   fst (snd (run_steps api d n idx plan w)) \<in> {Exhausted, Break} \<and>
   (\<forall>e \<in> set (fst (run_steps api d n idx plan w)). event_type e \<noteq> asc ''error'')"
proof (induction plan arbitrary: idx w)
  case Nil
  then show ?case by simp
next
  case (Cons s plan)
  from Cons.prems(1) obtain h where h: "map_of (TOOL_HANDLERS api) (tool s) = Some h"
    and acc: "accepts h (params s)"
    by (auto simp: callable_def split: option.splits)
  obtain r w1 where call: "call_kwargs h (params s) w = (Inr r, w1)"
    using call_kwargs_accepts[OF acc] by blast
  from Cons.IH[of "Suc idx" w1] Cons.prems have
    "fst (snd (run_steps api d n (Suc idx) plan w1)) \<in> {Exhausted, Break} \<and>
     (\<forall>e \<in> set (fst (run_steps api d n (Suc idx) plan w1)). event_type e \<noteq> asc ''error'')"
    by auto
  with h call show ?case
    by (auto simp: Let_def event_type_def progress_event_def start_event_def result_event_def
        split: prod.splits)
qed

lemma run_steps_disconnected:
  "d idx \<Longrightarrow> plan \<noteq> [] \<Longrightarrow> run_steps api d n idx plan w = ([], Break, w)"
  by (cases plan) auto

lemma run_steps_unknown:
  "\<not> d idx \<Longrightarrow> map_of (TOOL_HANDLERS api) (tool s) = None \<Longrightarrow>
   run_steps api d n idx (s # post) w =
     ([progress_event idx n (if label s \<noteq> [] then label s else tool s),
       start_event (tool s) idx (if label s \<noteq> [] then label s else tool s),
       error_event (tool s) idx], Return, w)"
  by (simp add: Let_def)

lemma count_results:
  "length (filter (\<lambda>k. k = asc ''result'')
     (concat (replicate m [asc ''progress'', asc ''start'', asc ''result'']))) = m"
  by (induction m) auto

lemma triples_no_done:
  "asc ''done'' \<notin> set (concat (replicate m [asc ''progress'', asc ''start'', asc ''result'']))"
  by (induction m) auto

lemma event_types:
  "event_type (progress_event idx n lbl) = asc ''progress''"
  "event_type (start_event name idx lbl) = asc ''start''"
  "event_type (error_event name idx) = asc ''error''"
  "event_type (result_event r name idx lbl) = asc ''result''"
  "event_type (done_event filename title) = asc ''done''"
  "event_type agent_start_event = asc ''start''"
  "event_type connected_event = asc ''connected''"
  "event_type tools_event = asc ''tools''"
  "event_type (heartbeat_event t) = asc ''heartbeat''"
  by (simp_all add: event_type_def progress_event_def start_event_def error_event_def
      result_event_def done_event_def agent_start_event_def connected_event_def tools_event_def
      heartbeat_event_def)

text \<open>
  What the disconnection check does in general: when the steps before step \<open>k\<close> have run
  and the peer is found disconnected at the check before step \<open>k\<close>, the loop breaks, and
  the statement after the loop yields the \<open>done\<close> event.
\<close>

lemma disconnect_breaks_to_done:
  assumes "run_steps api disconnected (length (pre @ step # post)) 1 pre w = (evs, Exhausted, w')"
    and "disconnected (Suc (length pre))"
  shows "execute_plan api disconnected filename title (pre @ step # post) w =
           (evs @ [done_event filename title], Break, w')"
    and "map event_type evs =
           concat (replicate (length pre) [asc ''progress'', asc ''start'', asc ''result''])"
proof -
  have "run_steps api disconnected (length (pre @ step # post)) (1 + length pre) (step # post) w' =
          ([], Break, w')"
    using assms(2) by (simp add: run_steps_disconnected)
  with run_steps_append[OF assms(1), of "step # post"]
  show "execute_plan api disconnected filename title (pre @ step # post) w =
           (evs @ [done_event filename title], Break, w')"
    by (simp add: execute_plan_def)
  show "map event_type evs =
           concat (replicate (length pre) [asc ''progress'', asc ''start'', asc ''result''])"
    using assms(1) by (rule run_steps_exhausted_types)
qed

section \<open>An unknown tool in the plan\<close>

text \<open>
  C2. Let a step of the plan name a tool that is not in the registry, and let execution
  reach it: the steps before it have run and the peer is connected at its check. Then the
  events of that step are exactly \<open>progress\<close>, \<open>start\<close> and \<open>error\<close>, the \<open>error\<close> event
  carrying the unknown name and the index of the step; they follow the events of the
  steps before, which are triples \<open>progress\<close>, \<open>start\<close>, \<open>result\<close>; nothing follows them:
  no \<open>result\<close> for the step, no event of a later step, no \<open>done\<close>.
\<close>

theorem unknown_tool_aborts:
  assumes "run_steps api disconnected (length (pre @ step # post)) 1 pre w = (evs, Exhausted, w')"
    and "\<not> disconnected (Suc (length pre))"
    and "map_of (TOOL_HANDLERS api) (tool step) = None"
  shows "execute_plan api disconnected filename title (pre @ step # post) w =
           (evs @
            [progress_event (Suc (length pre)) (length (pre @ step # post))
               (if label step \<noteq> [] then label step else tool step),
             start_event (tool step) (Suc (length pre))
               (if label step \<noteq> [] then label step else tool step),
             error_event (tool step) (Suc (length pre))],
            Return, w') \<and>
         error_event (tool step) (Suc (length pre)) =
           [(asc ''type'', PStr (asc ''error'')),
            (asc ''error'', PStr (msg_unknown_tool @ tool step)),
            (asc ''step'', PInt (int (Suc (length pre))))] \<and>
         map event_type (fst (execute_plan api disconnected filename title (pre @ step # post) w)) =
           concat (replicate (length pre) [asc ''progress'', asc ''start'', asc ''result'']) @
           [asc ''progress'', asc ''start'', asc ''error''] \<and>
         length (filter (\<lambda>k. k = asc ''result'')
           (map event_type
              (fst (execute_plan api disconnected filename title (pre @ step # post) w)))) =
           length pre \<and>
         asc ''done'' \<notin>
           set (map event_type
                  (fst (execute_plan api disconnected filename title (pre @ step # post) w)))"
proof -
  let ?lbl = "if label step \<noteq> [] then label step else tool step"
  let ?n = "length (pre @ step # post)"
  let ?k = "Suc (length pre)"
  have "run_steps api disconnected ?n (1 + length pre) (step # post) w' =
          ([progress_event ?k ?n ?lbl, start_event (tool step) ?k ?lbl, error_event (tool step) ?k],
           Return, w')"
    using assms(2,3) run_steps_unknown[of disconnected ?k api step ?n post w'] by simp
  with run_steps_append[OF assms(1), of "step # post"]
  have run: "execute_plan api disconnected filename title (pre @ step # post) w =
           (evs @ [progress_event ?k ?n ?lbl, start_event (tool step) ?k ?lbl,
                   error_event (tool step) ?k], Return, w')"
    by (simp add: execute_plan_def)
  have types: "map event_type evs =
           concat (replicate (length pre) [asc ''progress'', asc ''start'', asc ''result''])"
    using assms(1) by (rule run_steps_exhausted_types)
  have all_types:
    "map event_type (fst (execute_plan api disconnected filename title (pre @ step # post) w)) =
       concat (replicate (length pre) [asc ''progress'', asc ''start'', asc ''result'']) @
       [asc ''progress'', asc ''start'', asc ''error'']"
    by (simp add: run types event_types)
  have err: "error_event (tool step) ?k =
           [(asc ''type'', PStr (asc ''error'')),
            (asc ''error'', PStr (msg_unknown_tool @ tool step)),
            (asc ''step'', PInt (int ?k))]"
    by (simp add: error_event_def)
  have cnt: "length (filter (\<lambda>k. k = asc ''result'')
           (map event_type
              (fst (execute_plan api disconnected filename title (pre @ step # post) w)))) =
           length pre"
    unfolding all_types by (simp add: count_results)
  have nodone: "asc ''done'' \<notin>
           set (map event_type
                  (fst (execute_plan api disconnected filename title (pre @ step # post) w)))"
    unfolding all_types using triples_no_done[of "length pre"] by simp
  from run err all_types cnt nodone show ?thesis by blast
qed

lemma memory_first_step:
  "run_steps memory_backend (\<lambda>i. False) 3 1
     [\<lparr>tool = asc ''list_documents'', label = asc ''one'', params = []\<rparr>] [] =
   ([progress_event 1 3 (asc ''one''), start_event (asc ''list_documents'') 1 (asc ''one''),
     result_event
       [(asc ''success'', PBool True), (asc ''count'', PInt 0), (asc ''documents'', PList [])]
       (asc ''list_documents'') 1 (asc ''one'')], Exhausted, [])"
  by (simp add: Let_def lookup_list_documents call_kwargs_def bind_arguments_def
      memory_list_documents)

theorem unknown_tool_aborts_witness:
  "execute_plan memory_backend (\<lambda>i. False) (asc ''f'') (asc ''t'')
     [\<lparr>tool = asc ''list_documents'', label = asc ''one'', params = []\<rparr>,
      \<lparr>tool = asc ''typeset'', label = asc ''two'', params = []\<rparr>,
      \<lparr>tool = asc ''list_documents'', label = asc ''three'', params = []\<rparr>] [] =
   ([progress_event 1 3 (asc ''one''), start_event (asc ''list_documents'') 1 (asc ''one''),
     result_event
       [(asc ''success'', PBool True), (asc ''count'', PInt 0), (asc ''documents'', PList [])]
       (asc ''list_documents'') 1 (asc ''one''),
     progress_event 2 3 (asc ''two''), start_event (asc ''typeset'') 2 (asc ''two''),
     error_event (asc ''typeset'') 2], Return, [])"
proof -
  let ?pre = "[\<lparr>tool = asc ''list_documents'', label = asc ''one'', params = []\<rparr>]"
  let ?step = "\<lparr>tool = asc ''typeset'', label = asc ''two'', params = []\<rparr>"
  let ?post = "[\<lparr>tool = asc ''list_documents'', label = asc ''three'', params = []\<rparr>]"
  have len: "length (?pre @ ?step # ?post) = 3" by simp
  have reached: "run_steps memory_backend (\<lambda>i. False) (length (?pre @ ?step # ?post)) 1 ?pre [] =
      ([progress_event 1 3 (asc ''one''), start_event (asc ''list_documents'') 1 (asc ''one''),
        result_event
          [(asc ''success'', PBool True), (asc ''count'', PInt 0), (asc ''documents'', PList [])]
          (asc ''list_documents'') 1 (asc ''one'')], Exhausted, [])"
    unfolding len by (rule memory_first_step)
  have connected: "\<not> (\<lambda>i::nat. False) (Suc (length ?pre))" by simp
  have unknown: "map_of (TOOL_HANDLERS memory_backend) (tool ?step) = None"
    by (simp add: lookup_typeset)
  from unknown_tool_aborts[OF reached connected unknown, of "asc ''f''" "asc ''t''"]
  show ?thesis by (simp add: numeral_2_eq_2 numeral_3_eq_3)
qed

section \<open>Disconnection before a step\<close>

lemma lookup_create_document:
  "map_of (TOOL_HANDLERS api) (asc ''create_document'') =
     Some \<lparr>fn_name = asc ''create_document'', fn_required = [],
           fn_optional = [asc ''filename'', asc ''title'', asc ''content''],
           fn_body = (\<lambda>a. create_document api (a (asc ''filename'')) (a (asc ''title''))
                             (a (asc ''content'')))\<rparr>"
  by (simp add: TOOL_HANDLERS_def)

lemma lookup_add_table:
  "map_of (TOOL_HANDLERS api) (asc ''add_table'') =
     Some \<lparr>fn_name = asc ''add_table'', fn_required = [asc ''filename'', asc ''table_data''],
           fn_optional = [asc ''title''],
           fn_body = (\<lambda>a. add_table api (a (asc ''filename'')) (a (asc ''table_data''))
                             (a (asc ''title'')))\<rparr>"
  by (simp add: TOOL_HANDLERS_def)

lemma react_doc_plan_Cons:
  "\<exists>rest. rest \<noteq> [] \<and> react_doc_plan title filename =
     \<lparr>tool = asc ''create_document'', label = label_create,
      params = [(asc ''filename'', PStr filename), (asc ''title'', PStr title),
                (asc ''content'', PStr (intro_text title))]\<rparr> # rest"
  by (simp add: react_doc_plan_def Let_def append_sections_eq[of _ _ "[x]" for x])

lemma label_create_nonempty: "label_create \<noteq> []"
  by (simp add: label_create_def)

text \<open>
  C1 fails on the code. When the peer is found disconnected at the check before step 2,
  the stream holds the opening \<open>start\<close> event and the triple of step 1, as the claim says,
  and no event of step 2 or later; but the \<open>break\<close> leads to the statement after the
  loop, and a \<open>done\<close> event is yielded last. This holds for every backend, request and
  state.
\<close>

theorem disconnect_before_second_step:
  "stream_response api ualnum secs millis (\<lambda>i. i = 2) request w =
     ([agent_start_event,
       progress_event 1 16 label_create,
       start_event (asc ''create_document'') 1 label_create,
       result_event
         (fst (create_document api (PStr (resolve_filename ualnum secs millis request))
                 (PStr (resolve_title request)) (PStr (intro_text (resolve_title request))) w))
         (asc ''create_document'') 1 label_create,
       done_event (resolve_filename ualnum secs millis request) (resolve_title request)],
      Break,
      snd (create_document api (PStr (resolve_filename ualnum secs millis request))
             (PStr (resolve_title request)) (PStr (intro_text (resolve_title request))) w)) \<and>
   map event_type (fst (stream_response api ualnum secs millis (\<lambda>i. i = 2) request w)) =
     [asc ''start'', asc ''progress'', asc ''start'', asc ''result'', asc ''done'']"
proof -
  let ?t = "resolve_title request"
  let ?f = "resolve_filename ualnum secs millis request"
  let ?created = "create_document api (PStr ?f) (PStr ?t) (PStr (intro_text ?t)) w"
  obtain rest where rest: "rest \<noteq> []" and plan: "react_doc_plan ?t ?f =
     \<lparr>tool = asc ''create_document'', label = label_create,
      params = [(asc ''filename'', PStr ?f), (asc ''title'', PStr ?t),
                (asc ''content'', PStr (intro_text ?t))]\<rparr> # rest"
    using react_doc_plan_Cons[of ?t ?f] by blast
  have len: "length (react_doc_plan ?t ?f) = 16"
    by (rule react_doc_plan_length)
  have broke: "run_steps api (\<lambda>i. i = 2) 16 (Suc (Suc 0)) rest w1 = ([], Break, w1)" for w1
    using rest by (simp add: run_steps_disconnected numeral_2_eq_2)
  have run: "run_steps api (\<lambda>i. i = 2) (length (react_doc_plan ?t ?f)) 1 (react_doc_plan ?t ?f) w =
      ([progress_event 1 16 label_create,
        start_event (asc ''create_document'') 1 label_create,
        result_event (fst ?created) (asc ''create_document'') 1 label_create], Break, snd ?created)"
    unfolding len unfolding plan
    by (simp add: Let_def lookup_create_document call_kwargs_def bind_arguments_def
        argument_values_def label_create_nonempty broke split: prod.splits)
  have eq: "stream_response api ualnum secs millis (\<lambda>i. i = 2) request w =
     ([agent_start_event,
       progress_event 1 16 label_create,
       start_event (asc ''create_document'') 1 label_create,
       result_event (fst ?created) (asc ''create_document'') 1 label_create,
       done_event ?f ?t], Break, snd ?created)"
    unfolding stream_response_def execute_plan_def Let_def run by simp
  show ?thesis unfolding eq by (simp add: event_types)
qed

section \<open>The plan of the builder is callable\<close>

lemma react_doc_plan_callable:
  "s \<in> set (react_doc_plan title filename) \<Longrightarrow>
   callable api s \<and>
   tool s \<in> {asc ''create_document'', asc ''update_document'', asc ''add_table''}"
  by (auto simp: react_doc_plan_def Let_def append_sections_eq[of _ _ "[x]" for x] callable_def
      lookup_create_document lookup_update_document lookup_add_table accepts_def)

lemma callable_registered:
  "callable api s \<Longrightarrow> tool s \<in> set (map fst (TOOL_HANDLERS api))"
  by (auto simp: callable_def split: option.splits dest: map_of_SomeD intro: rev_image_eqI)

text \<open>
  C10. For every title and file name, every step of the plan of the builder names
  \<open>create_document\<close>, \<open>update_document\<close> or \<open>add_table\<close>, which are keys of the registry,
  and gives the handler keyword arguments it accepts. So the loop over this plan never
  takes the branch of the unknown tool: it is never left by \<open>return\<close>, and no \<open>error\<close>
  event is yielded, whatever the peer and the backend do.
\<close>

theorem builder_plan_registered:
  "(\<forall>s \<in> set (react_doc_plan title filename).
      tool s \<in> {asc ''create_document'', asc ''update_document'', asc ''add_table''} \<and>
      tool s \<in> set (map fst (TOOL_HANDLERS api)) \<and> callable api s) \<and>
   fst (snd (execute_plan api disconnected filename title (react_doc_plan title filename) w))
     \<in> {Exhausted, Break} \<and>
   (\<forall>e \<in> set (fst (execute_plan api disconnected filename title
                      (react_doc_plan title filename) w)).
      event_type e \<noteq> asc ''error'') \<and>
   fst (snd (stream_response api ualnum secs millis disconnected request w)) \<in> {Exhausted, Break} \<and>
   (\<forall>e \<in> set (fst (stream_response api ualnum secs millis disconnected request w)).
      event_type e \<noteq> asc ''error'')"
proof -
  have steps: "\<forall>s \<in> set (react_doc_plan t f).
      tool s \<in> {asc ''create_document'', asc ''update_document'', asc ''add_table''} \<and>
      tool s \<in> set (map fst (TOOL_HANDLERS api)) \<and> callable api s" for t f
    using react_doc_plan_callable[of _ t f api] callable_registered[of api] by blast
  have loop: "fst (snd (execute_plan api disconnected f t (react_doc_plan t f) w))
      \<in> {Exhausted, Break} \<and>
    (\<forall>e \<in> set (fst (execute_plan api disconnected f t (react_doc_plan t f) w)).
      event_type e \<noteq> asc ''error'')" for t f
  proof -
    have "\<forall>s \<in> set (react_doc_plan t f). callable api s" using steps by blast
    from run_steps_no_unknown[OF this, of disconnected "length (react_doc_plan t f)" 1 w]
    show ?thesis
      by (auto simp: execute_plan_def event_types split: prod.splits loop_exit.splits)
  qed
  have stream:
    "fst (snd (stream_response api ualnum secs millis disconnected request w)) \<in> {Exhausted, Break} \<and>
     (\<forall>e \<in> set (fst (stream_response api ualnum secs millis disconnected request w)).
        event_type e \<noteq> asc ''error'')"
    using loop[of "resolve_filename ualnum secs millis request" "resolve_title request"]
    by (auto simp: stream_response_def Let_def event_types split: prod.splits)
  from steps[of title filename] loop[of filename title] stream show ?thesis by blast
qed

theorem builder_plan_registered_witness:
  "list_all (\<lambda>s. tool s \<in> set (map fst (TOOL_HANDLERS memory_backend)))
     (react_doc_plan (asc ''React'') (asc ''React_1700000000123'')) \<and>
   fst (snd (stream_response memory_backend (\<lambda>c. False) 1700000000 1700000000123 (\<lambda>i. False)
               \<lparr>req_query = asc ''React'', req_title = None, req_filename = None\<rparr> []))
     \<in> {Exhausted, Break} \<and>
   list_all (\<lambda>e. event_type e \<noteq> asc ''error'')
     (fst (stream_response memory_backend (\<lambda>c. False) 1700000000 1700000000123 (\<lambda>i. False)
             \<lparr>req_query = asc ''React'', req_title = None, req_filename = None\<rparr> []))"
  using builder_plan_registered[of "asc ''React''" "asc ''React_1700000000123''" memory_backend
      "\<lambda>i. False" "[]" "\<lambda>c. False" 1700000000 1700000000123
      "\<lparr>req_query = asc ''React'', req_title = None, req_filename = None\<rparr>"]
  unfolding list_all_iff by blast

section \<open>Failing results do not stop the plan\<close>

text \<open>
  The loop never reads the \<open>success\<close> flag of a result. For a plan whose steps are all
  callable and a peer that stays connected, it yields one triple for each step and runs
  out of steps, whatever the results are.
\<close>

lemma callable_plan_runs_to_done:
  assumes "\<forall>s \<in> set plan. callable api s"
  shows "\<exists>evs w'.
           execute_plan api (\<lambda>i. False) filename title plan w =
             (evs @ [done_event filename title], Exhausted, w') \<and>
           map event_type evs =
             concat (replicate (length plan) [asc ''progress'', asc ''start'', asc ''result'']) \<and>
           length (filter (\<lambda>k. k = asc ''result'')
             (map event_type (fst (execute_plan api (\<lambda>i. False) filename title plan w)))) =
             length plan \<and>
           last (map event_type (fst (execute_plan api (\<lambda>i. False) filename title plan w))) =
             asc ''done''"
proof -
  from run_steps_callable[OF assms, of "length plan" 1 w] obtain evs w' where
    run: "run_steps api (\<lambda>i. False) (length plan) 1 plan w = (evs, Exhausted, w')" by blast
  have types: "map event_type evs =
      concat (replicate (length plan) [asc ''progress'', asc ''start'', asc ''result''])"
    using run by (rule run_steps_exhausted_types)
  have ex: "execute_plan api (\<lambda>i. False) filename title plan w =
      (evs @ [done_event filename title], Exhausted, w')"
    unfolding execute_plan_def run by simp
  have cnt: "length (filter (\<lambda>k. k = asc ''result'')
      (map event_type (fst (execute_plan api (\<lambda>i. False) filename title plan w)))) = length plan"
    by (simp add: ex types count_results event_types)
  have lst: "last (map event_type (fst (execute_plan api (\<lambda>i. False) filename title plan w))) =
      asc ''done''"
    by (simp add: ex event_types)
  from ex types cnt lst show ?thesis by blast
qed

text \<open>
  An example in which the first of two steps fails: \<open>update_document\<close> on a file that does
  not exist returns \<open>success\<close> false, and the second step runs all the same.
\<close>

lemma memory_two_steps:
  "execute_plan memory_backend (\<lambda>i. False) (asc ''f'') (asc ''t'')
     [\<lparr>tool = asc ''update_document'', label = asc ''one'',
       params = [(asc ''filename'', PStr (asc ''x'')), (asc ''action'', PStr (asc ''append'')),
                 (asc ''content'', PStr (asc ''hi''))]\<rparr>,
      \<lparr>tool = asc ''list_documents'', label = asc ''two'', params = []\<rparr>] [] =
   ([progress_event 1 2 (asc ''one''), start_event (asc ''update_document'') 1 (asc ''one''),
     result_event
       [(asc ''success'', PBool False), (asc ''error'', PStr (msg_not_found @ asc ''x''))]
       (asc ''update_document'') 1 (asc ''one''),
     progress_event 2 2 (asc ''two''), start_event (asc ''list_documents'') 2 (asc ''two''),
     result_event
       [(asc ''success'', PBool True), (asc ''count'', PInt 0), (asc ''documents'', PList [])]
       (asc ''list_documents'') 2 (asc ''two''),
     done_event (asc ''f'') (asc ''t'')], Exhausted, [])"
  by (simp add: execute_plan_def Let_def lookup_list_documents lookup_update_document
      call_kwargs_def bind_arguments_def argument_values_def memory_list_documents
      memory_update_document numeral_2_eq_2)

text \<open>
  The first result of the stream is what \<open>create_document\<close> returns, whether it succeeded
  or not.
\<close>

lemma stream_first_result:
  assumes "\<not> disconnected 1"
  shows "fst (stream_response api ualnum secs millis disconnected request w) ! 3 =
     result_event
       (fst (create_document api (PStr (resolve_filename ualnum secs millis request))
               (PStr (resolve_title request)) (PStr (intro_text (resolve_title request))) w))
       (asc ''create_document'') 1 label_create"
proof -
  let ?t = "resolve_title request"
  let ?f = "resolve_filename ualnum secs millis request"
  obtain rest where plan: "react_doc_plan ?t ?f =
     \<lparr>tool = asc ''create_document'', label = label_create,
      params = [(asc ''filename'', PStr ?f), (asc ''title'', PStr ?t),
                (asc ''content'', PStr (intro_text ?t))]\<rparr> # rest"
    using react_doc_plan_Cons[of ?t ?f] by blast
  show ?thesis
    unfolding stream_response_def execute_plan_def Let_def plan using assms
    by (simp add: Let_def lookup_create_document call_kwargs_def bind_arguments_def
        argument_values_def label_create_nonempty split: prod.splits)
qed

text \<open>
  C4. A result with \<open>success\<close> false never halts the plan. The plan that is executed is
  the one the builder makes, in which every step names a registered operation. For every
  request, every behaviour of the backend (so whatever \<open>success\<close> flags it returns) and
  every state, when the peer stays connected the stream is the opening \<open>start\<close> event,
  one triple \<open>progress\<close>, \<open>start\<close>, \<open>result\<close> for each of the 16 steps, and one \<open>done\<close>
  event at the end: execution reaches every step, and the number of \<open>result\<close> events is
  the number of steps of the plan.
\<close>

theorem failed_results_do_not_halt:
  "(\<exists>evs w'.
      stream_response api ualnum secs millis (\<lambda>i. False) request w =
        (agent_start_event # evs @
           [done_event (resolve_filename ualnum secs millis request) (resolve_title request)],
         Exhausted, w') \<and>
      map event_type evs =
        concat (replicate
          (length (react_doc_plan (resolve_title request)
                     (resolve_filename ualnum secs millis request)))
          [asc ''progress'', asc ''start'', asc ''result''])) \<and>
   length (filter (\<lambda>k. k = asc ''result'')
     (map event_type (fst (stream_response api ualnum secs millis (\<lambda>i. False) request w)))) =
     length (react_doc_plan (resolve_title request) (resolve_filename ualnum secs millis request)) \<and>
   length (react_doc_plan (resolve_title request) (resolve_filename ualnum secs millis request)) =
     16 \<and>
   last (map event_type (fst (stream_response api ualnum secs millis (\<lambda>i. False) request w))) =
     asc ''done'' \<and>
   fst (snd (stream_response api ualnum secs millis (\<lambda>i. False) request w)) = Exhausted"
proof -
  let ?t = "resolve_title request"
  let ?f = "resolve_filename ualnum secs millis request"
  let ?plan = "react_doc_plan ?t ?f"
  have "\<forall>s \<in> set ?plan. callable api s"
    using react_doc_plan_callable[of _ ?t ?f api] by blast
  from callable_plan_runs_to_done[OF this, of ?f ?t w] obtain evs w' where
    ex: "execute_plan api (\<lambda>i. False) ?f ?t ?plan w = (evs @ [done_event ?f ?t], Exhausted, w')"
    and types: "map event_type evs =
      concat (replicate (length ?plan) [asc ''progress'', asc ''start'', asc ''result''])"
    by blast
  have stream: "stream_response api ualnum secs millis (\<lambda>i. False) request w =
      (agent_start_event # evs @ [done_event ?f ?t], Exhausted, w')"
    by (simp add: stream_response_def Let_def ex)
  have cnt: "length (filter (\<lambda>k. k = asc ''result'')
      (map event_type (fst (stream_response api ualnum secs millis (\<lambda>i. False) request w)))) =
      length ?plan"
    by (simp add: stream types count_results event_types)
  have lst: "last (map event_type
      (fst (stream_response api ualnum secs millis (\<lambda>i. False) request w))) = asc ''done''"
    by (simp add: stream event_types)
  have ext: "fst (snd (stream_response api ualnum secs millis (\<lambda>i. False) request w)) = Exhausted"
    by (simp add: stream)
  from stream types cnt lst ext react_doc_plan_length[of ?t ?f] show ?thesis by blast
qed

text \<open>
  An instance in which every step fails: the backend cannot open its document template,
  so \<open>create_document\<close> returns \<open>success\<close> false and no file ever exists. The stream
  still has its 16 results and ends with \<open>done\<close>.
\<close>

theorem failed_results_do_not_halt_witness:
  "map_of
     (fst (stream_response
             (memory_backend\<lparr>doc_new := Inl (OtherException (asc ''PackageNotFoundError'')
                                                 (asc ''no template''))\<rparr>)
             (\<lambda>c. False) 1700000000 1700000000123 (\<lambda>i. False)
             \<lparr>req_query = asc ''React'', req_title = None, req_filename = None\<rparr> []) ! 3)
     (asc ''data'') =
     Some (PDict [(asc ''success'', PBool False), (asc ''error'', PStr (asc ''no template''))]) \<and>
   length (filter (\<lambda>k. k = asc ''result'')
     (map event_type
        (fst (stream_response
                (memory_backend\<lparr>doc_new := Inl (OtherException (asc ''PackageNotFoundError'')
                                                    (asc ''no template''))\<rparr>)
                (\<lambda>c. False) 1700000000 1700000000123 (\<lambda>i. False)
                \<lparr>req_query = asc ''React'', req_title = None, req_filename = None\<rparr> [])))) = 16 \<and>
   last (map event_type
        (fst (stream_response
                (memory_backend\<lparr>doc_new := Inl (OtherException (asc ''PackageNotFoundError'')
                                                    (asc ''no template''))\<rparr>)
                (\<lambda>c. False) 1700000000 1700000000123 (\<lambda>i. False)
                \<lparr>req_query = asc ''React'', req_title = None, req_filename = None\<rparr> []))) =
     asc ''done''"
proof -
  let ?api = "memory_backend\<lparr>doc_new := Inl (OtherException (asc ''PackageNotFoundError'')
                                                 (asc ''no template''))\<rparr>"
  let ?req = "\<lparr>req_query = asc ''React'', req_title = None, req_filename = None\<rparr>"
  have name: "resolve_filename (\<lambda>c. False) 1700000000 1700000000123 ?req =
      asc ''React_1700000000123''"
    by (simp add: normalise_eval)
  have created: "fst (create_document ?api (PStr (asc ''React_1700000000123'')) t c []) =
      [(asc ''success'', PBool False), (asc ''error'', PStr (asc ''no template''))]" for t c
    by (simp add: create_document_def create_document_try_def except_Exception_def
        get_file_path_def ends_with_def memory_backend_def need_str_def asc_def)
  have first: "map_of
      (fst (stream_response ?api (\<lambda>c. False) 1700000000 1700000000123 (\<lambda>i. False) ?req []) ! 3)
      (asc ''data'') =
      Some (PDict [(asc ''success'', PBool False), (asc ''error'', PStr (asc ''no template''))])"
    by (simp add: stream_first_result name created result_event_def)
  from failed_results_do_not_halt[of ?api "\<lambda>c. False" 1700000000 1700000000123 ?req "[]"] first
  show ?thesis by simp
qed

section \<open>The bare subscription\<close>

lemma heartbeat_loop_types:
  "e \<in> set (fst (heartbeat_loop d now i fuel)) \<Longrightarrow> event_type e = asc ''heartbeat''"
proof (induction fuel arbitrary: i)
  case 0
  then show ?case by simp
next
  case (Suc fuel)
  from Suc.prems Suc.IH[of "Suc i"] show ?case
    by (auto simp: event_types split: if_splits prod.splits)
qed

lemma heartbeat_loop_length: "length (fst (heartbeat_loop d now i fuel)) \<le> fuel"
proof (induction fuel arbitrary: i)
  case 0
  then show ?case by simp
next
  case (Suc fuel)
  show ?case using Suc[of "Suc i"] by (auto split: prod.splits)
qed

lemma heartbeat_loop_connected:
  "\<forall>j<fuel. \<not> d (i + j) \<Longrightarrow>
   heartbeat_loop d now i fuel = (map (\<lambda>j. heartbeat_event (now j)) [i..<i + fuel], False)"
proof (induction fuel arbitrary: i)
  case 0
  then show ?case by simp
next
  case (Suc fuel)
  have "\<forall>j<fuel. \<not> d (Suc i + j)" using Suc.prems by (metis Suc_less_eq add_Suc_shift)
  moreover have "\<not> d i" using Suc.prems by (metis add.right_neutral zero_less_Suc)
  moreover have "[i..<i + Suc fuel] = i # [Suc i..<Suc i + fuel]"
    by (simp add: upt_conv_Cons)
  ultimately show ?case using Suc.IH[of "Suc i"] by simp
qed

lemma heartbeat_loop_stops:
  "d (i + n) \<Longrightarrow> \<forall>j<n. \<not> d (i + j) \<Longrightarrow> n < fuel \<Longrightarrow>
   heartbeat_loop d now i fuel = (map (\<lambda>j. heartbeat_event (now j)) [i..<i + n], True)"
proof (induction n arbitrary: i fuel)
  case 0
  then obtain f where "fuel = Suc f" by (cases fuel) auto
  with 0 show ?case by simp
next
  case (Suc n)
  then obtain f where f: "fuel = Suc f" "n < f" by (cases fuel) auto
  have a: "d (Suc i + n)" using Suc.prems(1) by simp
  have b: "\<forall>j<n. \<not> d (Suc i + j)" using Suc.prems(2) by (metis Suc_less_eq add_Suc_shift)
  have c: "\<not> d i" using Suc.prems(2) by (metis add.right_neutral zero_less_Suc)
  have e: "[i..<i + Suc n] = i # [Suc i..<Suc i + n]"
    by (simp add: upt_conv_Cons)
  from Suc.IH[OF a b f(2)] c f show ?case
    unfolding e by simp
qed

text \<open>
  C8. On a bare subscription the stream starts with one \<open>connected\<close> and one \<open>tools\<close>
  event, which lists the keys of the registry; every later event is a \<open>heartbeat\<close>; no
  event is a \<open>start\<close>, a \<open>result\<close> or a \<open>done\<close>. When the check first finds the peer
  disconnected in iteration \<open>n\<close>, the generator returns after exactly \<open>n\<close> heartbeats; as
  long as the peer stays connected it goes on, one heartbeat for each iteration.
\<close>

theorem event_generator_sequence:
  "(\<exists>hs. fst (event_generator disconnected now fuel) = connected_event # tools_event # hs \<and>
          (\<forall>e \<in> set hs. event_type e = asc ''heartbeat'') \<and> length hs \<le> fuel) \<and>
   event_type connected_event = asc ''connected'' \<and>
   event_type tools_event = asc ''tools'' \<and>
   map_of tools_event (asc ''tools'') = Some (PList (map PStr (map fst (TOOL_HANDLERS api)))) \<and>
   (\<forall>e \<in> set (fst (event_generator disconnected now fuel)).
      event_type e \<noteq> asc ''start'' \<and> event_type e \<noteq> asc ''result'' \<and>
      event_type e \<noteq> asc ''done'') \<and>
   (\<forall>n. disconnected n \<and> (\<forall>i<n. \<not> disconnected i) \<and> n < fuel \<longrightarrow>
      event_generator disconnected now fuel =
        (connected_event # tools_event # map (\<lambda>i. heartbeat_event (now i)) [0..<n], True)) \<and>
   ((\<forall>i<fuel. \<not> disconnected i) \<longrightarrow>
      event_generator disconnected now fuel =
        (connected_event # tools_event # map (\<lambda>i. heartbeat_event (now i)) [0..<fuel], False))"
proof -
  let ?hs = "fst (heartbeat_loop disconnected now 0 fuel)"
  have shape: "fst (event_generator disconnected now fuel) = connected_event # tools_event # ?hs"
    by (simp add: event_generator_def split: prod.splits)
  have beats: "\<forall>e \<in> set ?hs. event_type e = asc ''heartbeat''"
    using heartbeat_loop_types by blast
  have len: "length ?hs \<le> fuel" by (rule heartbeat_loop_length)
  have listed: "map_of tools_event (asc ''tools'') =
      Some (PList (map PStr (map fst (TOOL_HANDLERS api))))"
    by (simp add: tools_event_def registry_keys)
  have kinds: "\<forall>e \<in> set (fst (event_generator disconnected now fuel)).
      event_type e \<noteq> asc ''start'' \<and> event_type e \<noteq> asc ''result'' \<and>
      event_type e \<noteq> asc ''done''"
    unfolding shape using beats by (auto simp: event_types)
  have stops: "event_generator disconnected now fuel =
        (connected_event # tools_event # map (\<lambda>i. heartbeat_event (now i)) [0..<n], True)"
    if "disconnected n \<and> (\<forall>i<n. \<not> disconnected i) \<and> n < fuel" for n
    using that heartbeat_loop_stops[of disconnected 0 n fuel now]
    by (simp add: event_generator_def)
  have goes_on: "event_generator disconnected now fuel =
        (connected_event # tools_event # map (\<lambda>i. heartbeat_event (now i)) [0..<fuel], False)"
    if "\<forall>i<fuel. \<not> disconnected i"
    using that heartbeat_loop_connected[of fuel disconnected 0 now]
    by (simp add: event_generator_def)
  from shape beats len listed kinds stops goes_on show ?thesis
    by (simp add: event_types)
qed

theorem event_generator_sequence_witness:
  "event_generator (\<lambda>i. i = 2) (\<lambda>i. asc ''t'') 5 =
     ([connected_event, tools_event, heartbeat_event (asc ''t''), heartbeat_event (asc ''t'')],
      True) \<and>
   event_generator (\<lambda>i. False) (\<lambda>i. asc ''t'') 1 =
     ([connected_event, tools_event, heartbeat_event (asc ''t'')], False)"
proof -
  have a: "(\<lambda>i::nat. i = 2) 2 \<and> (\<forall>i<2. \<not> (\<lambda>i::nat. i = 2) i) \<and> (2::nat) < 5" by simp
  have b: "\<forall>i<1. \<not> (\<lambda>i::nat. False) i" by simp
  from event_generator_sequence[of "\<lambda>i. i = 2" "\<lambda>i. asc ''t''" 5 memory_backend] a
  have first: "event_generator (\<lambda>i. i = 2) (\<lambda>i. asc ''t'') 5 =
     (connected_event # tools_event # map (\<lambda>i. heartbeat_event (asc ''t'')) [0..<2], True)"
    by blast
  from event_generator_sequence[of "\<lambda>i. False" "\<lambda>i. asc ''t''" 1 memory_backend] b
  have second: "event_generator (\<lambda>i. False) (\<lambda>i. asc ''t'') 1 =
     (connected_event # tools_event # map (\<lambda>i. heartbeat_event (asc ''t'')) [0..<1], False)"
    by blast
  from first second show ?thesis by (simp add: numeral_2_eq_2)
qed

end
